theory Spec2Isabelle
  imports Main
begin

section \<open>Python values\<close>

text \<open>
  A Python \<open>str\<close> is a sequence of Unicode code points: \<open>len\<close> and slicing count
  code points, not bytes. A string is therefore a list of code points, and \<open>lit\<close>
  embeds the ASCII literals of the source.
\<close>

type_synonym pystr = "nat list"

definition lit :: "string \<Rightarrow> pystr" where
  "lit s = map of_char s"

text \<open>
  An exception is its class name and the text \<open>str(e)\<close> returns. Only instances of
  \<open>Exception\<close> are values of this type; \<open>SystemExit\<close> is a separate outcome
  (see \<open>result\<close> below), because \<open>except Exception\<close> does not catch it.
\<close>

datatype py_exception = PyException (exc_class: string) (exc_str: pystr)

text \<open>\<open>str(n)\<close> for an integer: decimal digits, with a minus sign when negative.\<close>

fun str_nat :: "nat \<Rightarrow> pystr" where
  "str_nat n = (if n < 10 then [48 + n] else str_nat (n div 10) @ [48 + n mod 10])"

declare str_nat.simps [simp del]

definition str_int :: "int \<Rightarrow> pystr" where
  "str_int i = (if i < 0 then 45 # str_nat (nat (- i)) else str_nat (nat i))"

text \<open>\<open>sep.join(xs)\<close>.\<close>

fun str_join :: "pystr \<Rightarrow> pystr list \<Rightarrow> pystr" where
  "str_join sep [] = []"
| "str_join sep [x] = x"
| "str_join sep (x # y # ys) = x @ sep @ str_join sep (y # ys)"

text \<open>\<open>s.startswith(p)\<close>.\<close>

definition startswith :: "pystr \<Rightarrow> pystr \<Rightarrow> bool" where
  "startswith s p = (take (length p) s = p)"

text \<open>
  \<open>x or d\<close> for an optional string \<open>x\<close>: \<open>None\<close> and the empty string are falsy.
\<close>

definition py_or :: "pystr option \<Rightarrow> pystr \<Rightarrow> pystr" where
  "py_or x d = (case x of None \<Rightarrow> d | Some s \<Rightarrow> if s = [] then d else s)"

text \<open>
  An entry of the changed-files list is a JSON object, parsed into a \<open>dict\<close>. The values
  the hosting API puts there are strings and integers; an f-string formats either with
  \<open>str\<close>. \<open>d[k]\<close> raises \<open>KeyError\<close> when the key is missing; \<open>str(KeyError(k))\<close> is
  the key in single quotes (the keys read here are plain ASCII words).
\<close>

datatype pyval = PStr pystr | PInt int

type_synonym changed_file = "pystr \<rightharpoonup> pyval"

fun format_val :: "pyval \<Rightarrow> pystr" where
  "format_val (PStr s) = s"
| "format_val (PInt i) = str_int i"

definition key_error :: "pystr \<Rightarrow> py_exception" where
  "key_error k = PyException ''KeyError'' ([39] @ k @ [39])"

definition getitem :: "changed_file \<Rightarrow> pystr \<Rightarrow> py_exception + pyval" where
  "getitem d k = (case d k of None \<Rightarrow> Inl (key_error k) | Some v \<Rightarrow> Inr v)"

section \<open>The prompt builder\<close>

text \<open>
  One element of the list comprehension of \<open>create_review_prompt\<close>:
  \<^verbatim>\<open>f"- {f['filename']} ({f['status']}, +{f['additions']}/-{f['deletions']})"\<close>
  The fields are read left to right; the first missing key raises.
\<close>

definition file_line :: "changed_file \<Rightarrow> py_exception + pystr" where
  "file_line f =
     (case getitem f (lit ''filename'') of Inl e \<Rightarrow> Inl e | Inr filename \<Rightarrow>
      case getitem f (lit ''status'') of Inl e \<Rightarrow> Inl e | Inr status \<Rightarrow>
      case getitem f (lit ''additions'') of Inl e \<Rightarrow> Inl e | Inr additions \<Rightarrow>
      case getitem f (lit ''deletions'') of Inl e \<Rightarrow> Inl e | Inr deletions \<Rightarrow>
        Inr (concat [lit ''- '', format_val filename, lit '' ('', format_val status,
                     lit '', +'', format_val additions, lit ''/-'', format_val deletions,
                     lit '')'']))"

text \<open>The list comprehension: the lines of the given files, or the first exception.\<close>

fun file_lines :: "changed_file list \<Rightarrow> py_exception + pystr list" where
  "file_lines [] = Inr []"
| "file_lines (f # fs) =
     (case file_line f of Inl e \<Rightarrow> Inl e | Inr l \<Rightarrow>
      case file_lines fs of Inl e \<Rightarrow> Inl e | Inr ls \<Rightarrow> Inr (l # ls))"

text \<open>
  The local variable \<open>file_summary\<close> after its two statements: the join over
  \<open>changed_files[:20]\<close>, then the conditional \<open>+=\<close>.
\<close>

definition file_summary :: "changed_file list \<Rightarrow> py_exception + pystr" where
  "file_summary changed_files =
     (case file_lines (take 20 changed_files) of Inl e \<Rightarrow> Inl e | Inr ls \<Rightarrow>
        (let summary = str_join (lit ''\<newline>'') ls in
         if length changed_files > 20
         then Inr (summary @ lit ''\<newline>... and ''
                     @ str_int (int (length changed_files) - 20) @ lit '' more files'')
         else Inr summary))"

text \<open>
  \<open>create_review_prompt(diff, changed_files, pr_title="", pr_body="")\<close>. The title and
  the body are optional strings (\<open>None\<close> is a value a caller can pass; an argument left
  out is the default \<open>""\<close>, that is \<open>Some []\<close>). The template is the f-string of the
  source, one list element per literal piece or substitution.
\<close>

definition create_review_prompt ::
  "pystr \<Rightarrow> changed_file list \<Rightarrow> pystr option \<Rightarrow> pystr option \<Rightarrow> py_exception + pystr" where
  "create_review_prompt diff changed_files pr_title pr_body =
     (case file_summary changed_files of Inl e \<Rightarrow> Inl e | Inr summary \<Rightarrow>
        Inr (concat [
          lit ''You are an expert code reviewer. Review the following pull request changes and provide constructive feedback.\<newline>'',
          lit ''\<newline>'',
          lit ''Pull Request Title: '', py_or pr_title (lit ''N/A''), lit ''\<newline>'',
          lit ''Pull Request Description: '', py_or pr_body (lit ''N/A''), lit ''\<newline>'',
          lit ''\<newline>'',
          lit ''Changed Files:\<newline>'',
          summary, lit ''\<newline>'',
          lit ''\<newline>'',
          lit ''Diff:\<newline>'',
          lit ''```\<newline>'',
          take 50000 diff, lit ''  # Limit diff size to avoid token limits\<newline>'',
          lit ''```\<newline>'',
          lit ''\<newline>'',
          lit ''Please provide a comprehensive code review focusing on:\<newline>'',
          lit ''1. Code quality and best practices\<newline>'',
          lit ''2. Potential bugs or security issues\<newline>'',
          lit ''3. Performance considerations\<newline>'',
          lit ''4. Code style and consistency\<newline>'',
          lit ''5. Documentation and comments\<newline>'',
          lit ''6. Test coverage (if applicable)\<newline>'',
          lit ''\<newline>'',
          lit ''Format your review as:\<newline>'',
          lit ''- **Summary**: Brief overview\<newline>'',
          lit ''- **Issues Found**: List of issues with severity (Critical/High/Medium/Low)\<newline>'',
          lit ''- **Suggestions**: Actionable improvement suggestions\<newline>'',
          lit ''- **Positive Feedback**: What was done well\<newline>'',
          lit ''\<newline>'',
          lit ''Be constructive, specific, and provide code examples when helpful.'']))"

section \<open>Effects: outcomes, the world, the external services\<close>

text \<open>
  A statement returns a value, raises an \<open>Exception\<close>, or leaves through
  \<open>sys.exit(n)\<close> (\<open>SystemExit\<close>, which \<open>except Exception\<close> lets pass).
\<close>

datatype 'a result = Return 'a | Raise py_exception | Exit int

text \<open>The calls the program makes to the services outside it, with their arguments.\<close>

record chat_request =
  req_model :: pystr
  req_messages :: "(pystr \<times> pystr) list"  \<comment> \<open>role and content of each message\<close>
  req_temperature :: string  \<comment> \<open>the literal of the source, passed through\<close>
  req_max_tokens :: int

datatype api_call =
    HttpGet pystr "(pystr \<times> pystr) list"  \<comment> \<open>\<open>requests.get(url, headers=...)\<close>\<close>
  | GetRepo pystr pystr  \<comment> \<open>\<open>Github(token).get_repo(name)\<close>\<close>
  | GetPull pystr pystr int  \<comment> \<open>\<open>repo.get_pull(number)\<close>\<close>
  | CreateIssueComment pystr pystr int pystr  \<comment> \<open>\<open>pr.create_issue_comment(body)\<close>\<close>
  | ChatCompletionsCreate pystr chat_request  \<comment> \<open>\<open>client.chat.completions.create(...)\<close>\<close>

text \<open>
  The world the program acts on: what it printed, the tracebacks it wrote, the calls
  it made, and the comments that exist on pull requests (repository, number, body).
\<close>

record world =
  stdout :: "pystr list"
  stderr :: "py_exception list"
  api_calls :: "api_call list"
  comments :: "(pystr \<times> int \<times> pystr) list"

type_synonym 'a prog = "world \<Rightarrow> 'a result \<times> world"

text \<open>What the libraries hand back.\<close>

record response =
  status_code :: nat
  resp_text :: pystr  \<comment> \<open>\<open>response.text\<close>\<close>
  resp_json :: "py_exception + changed_file list"  \<comment> \<open>what \<open>response.json()\<close> does\<close>
  http_error_msg :: pystr  \<comment> \<open>the description of the library's \<open>HTTPError\<close> for it\<close>

record pull_request =
  title :: pystr
  body :: "pystr option"

record chat_message =
  content :: "pystr option"

record chat_choice =
  message :: chat_message

record chat_completion =
  choices :: "chat_choice list"

text \<open>
  The services and the interpreter's \<open>int()\<close> are parameters. A service answers a
  call from the arguments and from the calls made so far, so that the same request can
  be answered differently the second time.
\<close>

record env =
  env_requests_get :: "api_call list \<Rightarrow> pystr \<Rightarrow> (pystr \<times> pystr) list \<Rightarrow> py_exception + response"
  env_get_repo :: "api_call list \<Rightarrow> pystr \<Rightarrow> pystr \<Rightarrow> py_exception + unit"
  env_get_pull :: "api_call list \<Rightarrow> pystr \<Rightarrow> pystr \<Rightarrow> int \<Rightarrow> py_exception + pull_request"
  env_create_issue_comment ::
    "api_call list \<Rightarrow> pystr \<Rightarrow> pystr \<Rightarrow> int \<Rightarrow> pystr \<Rightarrow> py_exception + unit"
  env_chat_create :: "api_call list \<Rightarrow> pystr \<Rightarrow> chat_request \<Rightarrow> py_exception + chat_completion"
  env_int :: "pystr \<Rightarrow> py_exception + int"

subsection \<open>Sequencing\<close>

definition return_io :: "'a \<Rightarrow> 'a prog" where
  "return_io x = (\<lambda>w. (Return x, w))"

definition raise_io :: "py_exception \<Rightarrow> 'a prog" where
  "raise_io e = (\<lambda>w. (Raise e, w))"

definition sys_exit :: "int \<Rightarrow> 'a prog" where
  "sys_exit n = (\<lambda>w. (Exit n, w))"

definition bind_io :: "'a prog \<Rightarrow> ('a \<Rightarrow> 'b prog) \<Rightarrow> 'b prog" where
  "bind_io m f = (\<lambda>w. case m w of
       (Return x, w') \<Rightarrow> f x w'
     | (Raise e, w') \<Rightarrow> (Raise e, w')
     | (Exit n, w') \<Rightarrow> (Exit n, w'))"

text \<open>\<open>try: m except Exception as e: h e\<close>.\<close>

definition try_except :: "'a prog \<Rightarrow> (py_exception \<Rightarrow> 'a prog) \<Rightarrow> 'a prog" where
  "try_except m h = (\<lambda>w. case m w of
       (Raise e, w') \<Rightarrow> h e w'
     | (Return x, w') \<Rightarrow> (Return x, w')
     | (Exit n, w') \<Rightarrow> (Exit n, w'))"

definition lift_io :: "py_exception + 'a \<Rightarrow> 'a prog" where
  "lift_io r = (case r of Inl e \<Rightarrow> raise_io e | Inr x \<Rightarrow> return_io x)"

definition print :: "pystr \<Rightarrow> unit prog" where
  "print s = (\<lambda>w. (Return (), w\<lparr>stdout := stdout w @ [s]\<rparr>))"

text \<open>\<open>traceback.print_exc()\<close> in a handler of \<open>e\<close>.\<close>

definition print_exc :: "py_exception \<Rightarrow> unit prog" where
  "print_exc e = (\<lambda>w. (Return (), w\<lparr>stderr := stderr w @ [e]\<rparr>))"

subsection \<open>The calls\<close>

definition requests_get :: "env \<Rightarrow> pystr \<Rightarrow> (pystr \<times> pystr) list \<Rightarrow> response prog" where
  "requests_get env url headers = (\<lambda>w.
     lift_io (env_requests_get env (api_calls w) url headers)
       (w\<lparr>api_calls := api_calls w @ [HttpGet url headers]\<rparr>))"

definition get_repo :: "env \<Rightarrow> pystr \<Rightarrow> pystr \<Rightarrow> unit prog" where
  "get_repo env token name = (\<lambda>w.
     lift_io (env_get_repo env (api_calls w) token name)
       (w\<lparr>api_calls := api_calls w @ [GetRepo token name]\<rparr>))"

definition get_pull :: "env \<Rightarrow> pystr \<Rightarrow> pystr \<Rightarrow> int \<Rightarrow> pull_request prog" where
  "get_pull env token name n = (\<lambda>w.
     lift_io (env_get_pull env (api_calls w) token name n)
       (w\<lparr>api_calls := api_calls w @ [GetPull token name n]\<rparr>))"

text \<open>A call that returns has created the comment; a call that raises has not.\<close>

definition create_issue_comment :: "env \<Rightarrow> pystr \<Rightarrow> pystr \<Rightarrow> int \<Rightarrow> pystr \<Rightarrow> unit prog" where
  "create_issue_comment env token name n comment_body = (\<lambda>w.
     (case env_create_issue_comment env (api_calls w) token name n comment_body of
        Inl e \<Rightarrow> (Raise e, w\<lparr>api_calls := api_calls w @ [CreateIssueComment token name n comment_body]\<rparr>)
      | Inr u \<Rightarrow> (Return (),
          w\<lparr>api_calls := api_calls w @ [CreateIssueComment token name n comment_body],
            comments := comments w @ [(name, n, comment_body)]\<rparr>)))"

definition chat_completions_create :: "env \<Rightarrow> pystr \<Rightarrow> chat_request \<Rightarrow> chat_completion prog" where
  "chat_completions_create env api_key req = (\<lambda>w.
     lift_io (env_chat_create env (api_calls w) api_key req)
       (w\<lparr>api_calls := api_calls w @ [ChatCompletionsCreate api_key req]\<rparr>))"

text \<open>
  Modelled from the spec: \<open>Response.raise_for_status\<close> of the HTTP client library,
  which is not part of the repository. The spec's words: it "raises/fails on any
  non-2xx HTTP status". The exception is the library's \<open>HTTPError\<close>.
\<close>

definition raise_for_status :: "response \<Rightarrow> unit prog" where
  "raise_for_status r =
     (if 200 \<le> status_code r \<and> status_code r < 300 then return_io ()
      else raise_io (PyException ''HTTPError'' (http_error_msg r)))"

section \<open>The fetchers\<close>

definition get_pr_diff :: "env \<Rightarrow> pystr \<Rightarrow> pystr \<Rightarrow> pystr \<Rightarrow> pystr prog" where
  "get_pr_diff env github_token repo_full_name pr_number =
     (let headers = [(lit ''Authorization'', lit ''token '' @ github_token),
                     (lit ''Accept'', lit ''application/vnd.github.v3.diff'')];
          url = concat [lit ''https://api.github.com/repos/'', repo_full_name,
                        lit ''/pulls/'', pr_number]
      in bind_io (requests_get env url headers) (\<lambda>response.
         bind_io (raise_for_status response) (\<lambda>u.
         return_io (resp_text response))))"

definition get_changed_files :: "env \<Rightarrow> pystr \<Rightarrow> pystr \<Rightarrow> pystr \<Rightarrow> changed_file list prog" where
  "get_changed_files env github_token repo_full_name pr_number =
     (let headers = [(lit ''Authorization'', lit ''token '' @ github_token),
                     (lit ''Accept'', lit ''application/vnd.github.v3+json'')];
          url = concat [lit ''https://api.github.com/repos/'', repo_full_name,
                        lit ''/pulls/'', pr_number, lit ''/files'']
      in bind_io (requests_get env url headers) (\<lambda>response.
         bind_io (raise_for_status response) (\<lambda>u.
         lift_io (resp_json response))))"

section \<open>The review requester\<close>

definition index_error :: py_exception where
  "index_error = PyException ''IndexError'' (lit ''list index out of range'')"

text \<open>
  The \<open>return\<close> stands inside the \<open>try\<close>: an empty \<open>choices\<close> list raises
  \<open>IndexError\<close> there and is caught like a failure of the call.
\<close>

definition review_with_ai :: "env \<Rightarrow> pystr \<Rightarrow> pystr \<Rightarrow> pystr \<Rightarrow> pystr option prog" where
  "review_with_ai env openai_client model prompt =
     try_except
       (bind_io (chat_completions_create env openai_client
            \<lparr>req_model = model,
             req_messages =
               [(lit ''system'', lit ''You are an expert software engineer and code reviewer with deep knowledge of best practices, security, performance, and code quality.''),
                (lit ''user'', prompt)],
             req_temperature = ''0.3'',
             req_max_tokens = 2000\<rparr>) (\<lambda>response.
          case choices response of
            [] \<Rightarrow> raise_io index_error
          | c # cs \<Rightarrow> return_io (content (message c))))
       (\<lambda>e. return_io (Some (lit ''Error during AI review: '' @ exc_str e)))"

section \<open>The comment publisher\<close>

definition post_pr_comment :: "env \<Rightarrow> pystr \<Rightarrow> pystr \<Rightarrow> pystr \<Rightarrow> pystr \<Rightarrow> unit prog" where
  "post_pr_comment env github_token repo_full_name pr_number review_body =
     bind_io (get_repo env github_token repo_full_name) (\<lambda>repo.
     bind_io (lift_io (env_int env pr_number)) (\<lambda>n.
     bind_io (get_pull env github_token repo_full_name n) (\<lambda>pr.
     (let comment_body = concat [
            lit ''## '', [129302], lit '' AI Code Review\<newline>'',
            lit ''\<newline>'',
            review_body, lit ''\<newline>'',
            lit ''\<newline>'',
            lit ''---\<newline>'',
            lit ''*This review was generated automatically by AI PR Reviewer*'']
      in bind_io (create_issue_comment env github_token repo_full_name n comment_body) (\<lambda>u.
         print (concat [[9989], lit '' Posted review comment on PR #'', pr_number]))))))"

section \<open>The pipeline\<close>

text \<open>The namespace \<open>parse_args\<close> returns; \<open>--pr-sha\<close> is optional.\<close>

record args =
  arg_openai_api_key :: pystr
  arg_github_token :: pystr
  arg_openai_model :: pystr
  arg_pr_number :: pystr
  arg_repo :: pystr
  arg_pr_sha :: "pystr option"

definition attribute_error :: py_exception where
  "attribute_error = PyException ''AttributeError''
     (concat [[39], lit ''NoneType'', [39], lit '' object has no attribute '',
              [39], lit ''startswith'', [39]])"

text \<open>
  \<open>main()\<close> after \<open>parse_args\<close>. The OpenAI client is its API key. A review that is
  \<open>None\<close> has no \<open>startswith\<close>: the attribute access raises inside the \<open>try\<close>.
\<close>

definition main :: "env \<Rightarrow> args \<Rightarrow> unit prog" where
  "main env args =
     bind_io (print (concat [[128203], lit '' Reviewing PR #'', arg_pr_number args,
                             lit '' in '', arg_repo args])) (\<lambda>u.
     (let openai_client = arg_openai_api_key args in
      try_except
        (bind_io (print ([128229] @ lit '' Fetching PR diff...'')) (\<lambda>u.
         bind_io (get_pr_diff env (arg_github_token args) (arg_repo args) (arg_pr_number args)) (\<lambda>diff.
         bind_io (print ([128193] @ lit '' Fetching changed files...'')) (\<lambda>u.
         bind_io (get_changed_files env (arg_github_token args) (arg_repo args) (arg_pr_number args)) (\<lambda>changed_files.
         bind_io (get_repo env (arg_github_token args) (arg_repo args)) (\<lambda>repo.
         bind_io (lift_io (env_int env (arg_pr_number args))) (\<lambda>n.
         bind_io (get_pull env (arg_github_token args) (arg_repo args) n) (\<lambda>pr.
         (let pr_title = title pr;
              pr_body = py_or (body pr) []
          in
         bind_io (print (concat [[128221], lit '' PR: '', pr_title])) (\<lambda>u.
         bind_io (print (concat [[128202], lit '' Changed files: '',
                                 str_int (int (length changed_files))])) (\<lambda>u.
         bind_io (print ([129302] @ lit '' Generating AI review...'')) (\<lambda>u.
         bind_io (lift_io (create_review_prompt diff changed_files (Some pr_title) (Some pr_body))) (\<lambda>prompt.
         bind_io (review_with_ai env openai_client (arg_openai_model args) prompt) (\<lambda>review.
         (case review of
            None \<Rightarrow> raise_io attribute_error
          | Some review_text \<Rightarrow>
              bind_io (if startswith review_text (lit ''Error'')
                       then bind_io (print (concat [[10060], lit '' '', review_text])) (\<lambda>u.
                            sys_exit 1)
                       else return_io ()) (\<lambda>u.
              bind_io (print ([128172] @ lit '' Posting review comment...'')) (\<lambda>u.
              bind_io (post_pr_comment env (arg_github_token args) (arg_repo args)
                         (arg_pr_number args) review_text) (\<lambda>u.
              print ([9989] @ lit '' Review completed successfully!'')))))))))))))))))))
        (\<lambda>e.
         bind_io (print (concat [[10060], lit '' Error during review: '', exc_str e])) (\<lambda>u.
         bind_io (print_exc e) (\<lambda>u.
         sys_exit 1)))))"

text \<open>
  The status the process exits with: 0 when \<open>main\<close> returns, the argument of
  \<open>sys.exit\<close>, and 1 for an exception nobody caught.
\<close>

fun exit_code :: "unit result \<Rightarrow> int" where
  "exit_code (Return u) = 0"
| "exit_code (Exit n) = n"
| "exit_code (Raise e) = 1"

section \<open>The prompt builder on the object store\<close>

text \<open>
  \<open>create_review_prompt\<close> above is a function of the values of its arguments. In
  Python the changed-files list is a mutable list object whose elements refer to
  mutable dict objects, and the caller keeps both. This section embeds the same
  function body one level lower, on a store of objects, so that what the body does to
  the objects it is given can be stated.

  Strings and integers are immutable and stay values. A list or a dict is an object at
  an address of the store; the element of a list is a reference to an object or a
  value. The store is the list of its objects, an address is a position in it, and a
  new object takes the next position.
\<close>

datatype element = Ref nat | Val pyval

datatype pyobj = ListObj "element list" | DictObj changed_file

type_synonym store = "pyobj list"

text \<open>
  Subscripting a string, an integer or a list with a string key, or joining items that
  are not strings, raises \<open>TypeError\<close>. Its description depends on the operand and is
  left empty. Two cases lie outside what the function is called with, and the model
  answers them with the same exception: a \<open>changed_files\<close> that is not a list (slicing
  a dict raises \<open>TypeError\<close> up to Python 3.11 and \<open>KeyError\<close> after), and a reference
  outside the store, which does not exist in Python. The theorems below do not depend
  on either.
\<close>

definition type_error :: py_exception where
  "type_error = PyException ''TypeError'' []"

definition deref :: "store \<Rightarrow> nat \<Rightarrow> pyobj option" where
  "deref h a = (if a < length h then Some (h ! a) else None)"

text \<open>
  Creating an object, and \<open>xs.append(x)\<close>, which changes the list object in place.
\<close>

definition new_object :: "store \<Rightarrow> pyobj \<Rightarrow> nat \<times> store" where
  "new_object h ob = (length h, h @ [ob])"

definition list_append :: "store \<Rightarrow> nat \<Rightarrow> element \<Rightarrow> store" where
  "list_append h a x =
     (case deref h a of Some (ListObj xs) \<Rightarrow> h[a := ListObj (xs @ [x])] | _ \<Rightarrow> h)"

text \<open>
  The loop of the list comprehension: \<open>r\<close> is the address of the list being built,
  the last argument the elements of \<open>changed_files[:20]\<close> still to visit. Each element
  has to refer to a dict, whose line is appended to the list at \<open>r\<close>; the first
  exception ends the loop.
\<close>

fun comprehension :: "store \<Rightarrow> nat \<Rightarrow> element list \<Rightarrow> py_exception option \<times> store" where
  "comprehension h r [] = (None, h)"
| "comprehension h r (Val v # xs) = (Some type_error, h)"
| "comprehension h r (Ref d # xs) =
     (case deref h d of
        Some (DictObj f) \<Rightarrow>
          (case file_line f of
             Inl e \<Rightarrow> (Some e, h)
           | Inr l \<Rightarrow> comprehension (list_append h r (Val (PStr l))) r xs)
      | _ \<Rightarrow> (Some type_error, h))"

text \<open>
  The items a \<open>join\<close> accepts: strings only.
\<close>

fun joinable :: "element list \<Rightarrow> pystr list option" where
  "joinable [] = Some []"
| "joinable (Val (PStr s) # xs) = (case joinable xs of None \<Rightarrow> None | Some ss \<Rightarrow> Some (s # ss))"
| "joinable (x # xs) = None"

text \<open>
  The two statements that compute \<open>file_summary\<close>: the slice is a new list object,
  the comprehension fills a second new list object, \<open>join\<close> reads that list, and
  \<open>len(changed_files)\<close> reads the argument again.
\<close>

definition file_summary_store :: "store \<Rightarrow> nat \<Rightarrow> (py_exception + pystr) \<times> store" where
  "file_summary_store h changed_files =
     (case deref h changed_files of
        Some (ListObj items) \<Rightarrow>
          (let (slice, h1) = new_object h (ListObj (take 20 items));
               (lines, h2) = new_object h1 (ListObj [])
           in case comprehension h2 lines (take 20 items) of
                (Some e, h3) \<Rightarrow> (Inl e, h3)
              | (None, h3) \<Rightarrow>
                  (case deref h3 lines of
                     Some (ListObj ls) \<Rightarrow>
                       (case joinable ls of
                          None \<Rightarrow> (Inl type_error, h3)
                        | Some strs \<Rightarrow>
                            (let summary = str_join (lit ''\<newline>'') strs in
                             case deref h3 changed_files of
                               Some (ListObj items') \<Rightarrow>
                                 if length items' > 20
                                 then (Inr (summary @ lit ''\<newline>... and ''
                                              @ str_int (int (length items') - 20)
                                              @ lit '' more files''), h3)
                                 else (Inr summary, h3)
                             | _ \<Rightarrow> (Inl type_error, h3)))
                   | _ \<Rightarrow> (Inl type_error, h3)))
      | _ \<Rightarrow> (Inl type_error, h))"

text \<open>
  The function: the summary, then the f-string, which builds a new string.
\<close>

definition create_review_prompt_store ::
  "store \<Rightarrow> pystr \<Rightarrow> nat \<Rightarrow> pystr option \<Rightarrow> pystr option \<Rightarrow> (py_exception + pystr) \<times> store" where
  "create_review_prompt_store h diff changed_files pr_title pr_body =
     (case file_summary_store h changed_files of
        (Inl e, h') \<Rightarrow> (Inl e, h')
      | (Inr summary, h') \<Rightarrow>
          (Inr (concat [
          lit ''You are an expert code reviewer. Review the following pull request changes and provide constructive feedback.\<newline>'',
          lit ''\<newline>'',
          lit ''Pull Request Title: '', py_or pr_title (lit ''N/A''), lit ''\<newline>'',
          lit ''Pull Request Description: '', py_or pr_body (lit ''N/A''), lit ''\<newline>'',
          lit ''\<newline>'',
          lit ''Changed Files:\<newline>'',
          summary, lit ''\<newline>'',
          lit ''\<newline>'',
          lit ''Diff:\<newline>'',
          lit ''```\<newline>'',
          take 50000 diff, lit ''  # Limit diff size to avoid token limits\<newline>'',
          lit ''```\<newline>'',
          lit ''\<newline>'',
          lit ''Please provide a comprehensive code review focusing on:\<newline>'',
          lit ''1. Code quality and best practices\<newline>'',
          lit ''2. Potential bugs or security issues\<newline>'',
          lit ''3. Performance considerations\<newline>'',
          lit ''4. Code style and consistency\<newline>'',
          lit ''5. Documentation and comments\<newline>'',
          lit ''6. Test coverage (if applicable)\<newline>'',
          lit ''\<newline>'',
          lit ''Format your review as:\<newline>'',
          lit ''- **Summary**: Brief overview\<newline>'',
          lit ''- **Issues Found**: List of issues with severity (Critical/High/Medium/Low)\<newline>'',
          lit ''- **Suggestions**: Actionable improvement suggestions\<newline>'',
          lit ''- **Positive Feedback**: What was done well\<newline>'',
          lit ''\<newline>'',
          lit ''Be constructive, specific, and provide code examples when helpful.'']), h'))"

section \<open>Notions the statements use\<close>

subsection \<open>The file summary, in the words of the specification\<close>

text \<open>
  The four keys an entry of the summary reads.
\<close>

definition summary_keys :: "pystr list" where
  "summary_keys = [lit ''filename'', lit ''status'', lit ''additions'', lit ''deletions'']"

text \<open>
  The entry of one file as the specification writes it,
  \<^verbatim>\<open>- {path} ({status}, +{additions}/-{deletions})\<close>, for a file that has the four keys;
  and the closing line \<^verbatim>\<open>... and {k} more files\<close>.
\<close>

definition spec_file_entry :: "changed_file \<Rightarrow> pystr" where
  "spec_file_entry f =
     concat [lit ''- '', format_val (the (f (lit ''filename''))),
             lit '' ('', format_val (the (f (lit ''status''))),
             lit '', +'', format_val (the (f (lit ''additions''))),
             lit ''/-'', format_val (the (f (lit ''deletions''))), lit '')'']"

definition spec_more_files :: "nat \<Rightarrow> pystr" where
  "spec_more_files k = concat [lit ''... and '', str_nat k, lit '' more files'']"

text \<open>
  The number a string of decimal digits denotes: the inverse of \<open>str_nat\<close>.
\<close>

definition decimal_value :: "pystr \<Rightarrow> nat" where
  "decimal_value ds = foldl (\<lambda>a d. 10 * a + (d - 48)) 0 ds"

subsection \<open>Fixed parts of the prompt and of the comment\<close>

text \<open>
  The first line of the template with the empty line after it, and everything after
  the code fence that closes the diff.
\<close>

definition prompt_intro :: pystr where
  "prompt_intro = lit ''You are an expert code reviewer. Review the following pull request changes and provide constructive feedback.\<newline>\<newline>''"

definition prompt_instructions :: pystr where
  "prompt_instructions = lit ''\<newline>\<newline>Please provide a comprehensive code review focusing on:\<newline>1. Code quality and best practices\<newline>2. Potential bugs or security issues\<newline>3. Performance considerations\<newline>4. Code style and consistency\<newline>5. Documentation and comments\<newline>6. Test coverage (if applicable)\<newline>\<newline>Format your review as:\<newline>- **Summary**: Brief overview\<newline>- **Issues Found**: List of issues with severity (Critical/High/Medium/Low)\<newline>- **Suggestions**: Actionable improvement suggestions\<newline>- **Positive Feedback**: What was done well\<newline>\<newline>Be constructive, specific, and provide code examples when helpful.''"

text \<open>
  The comment body \<open>post_pr_comment\<close> builds around a review, as one expression.
\<close>

definition wrap_review :: "pystr \<Rightarrow> pystr" where
  "wrap_review review_body =
     concat [lit ''## '', [129302], lit '' AI Code Review\<newline>\<newline>'', review_body,
             lit ''\<newline>\<newline>---\<newline>*This review was generated automatically by AI PR Reviewer*'']"

fun is_comment_call :: "api_call \<Rightarrow> bool" where
  "is_comment_call (CreateIssueComment token name n b) = True"
| "is_comment_call c = False"

subsection \<open>The two halves of the pipeline\<close>

text \<open>
  \<open>review_stage\<close> is \<open>main\<close> from its first statement to the call of
  \<open>review_with_ai\<close>; \<open>publish_stage\<close> is the rest of the \<open>try\<close> block, from the
  test of the review on; \<open>failure_handler\<close> is the \<open>except\<close> clause. The lemma
  \<open>main_stages\<close> below shows that \<open>main\<close> is their composition.
  \<open>posting_state\<close> is the world once the pipeline has announced the posting.
\<close>

definition review_stage :: "env \<Rightarrow> args \<Rightarrow> pystr option prog" where
  "review_stage env args =
     bind_io (print (concat [[128203], lit '' Reviewing PR #'', arg_pr_number args,
                             lit '' in '', arg_repo args])) (\<lambda>u.
     bind_io (print ([128229] @ lit '' Fetching PR diff...'')) (\<lambda>u.
     bind_io (get_pr_diff env (arg_github_token args) (arg_repo args) (arg_pr_number args)) (\<lambda>diff.
     bind_io (print ([128193] @ lit '' Fetching changed files...'')) (\<lambda>u.
     bind_io (get_changed_files env (arg_github_token args) (arg_repo args) (arg_pr_number args)) (\<lambda>changed_files.
     bind_io (get_repo env (arg_github_token args) (arg_repo args)) (\<lambda>repo.
     bind_io (lift_io (env_int env (arg_pr_number args))) (\<lambda>n.
     bind_io (get_pull env (arg_github_token args) (arg_repo args) n) (\<lambda>pr.
     bind_io (print (concat [[128221], lit '' PR: '', title pr])) (\<lambda>u.
     bind_io (print (concat [[128202], lit '' Changed files: '',
                             str_int (int (length changed_files))])) (\<lambda>u.
     bind_io (print ([129302] @ lit '' Generating AI review...'')) (\<lambda>u.
     bind_io (lift_io (create_review_prompt diff changed_files (Some (title pr))
                         (Some (py_or (body pr) [])))) (\<lambda>prompt.
     review_with_ai env (arg_openai_api_key args) (arg_openai_model args) prompt))))))))))))"

definition publish_stage :: "env \<Rightarrow> args \<Rightarrow> pystr option \<Rightarrow> unit prog" where
  "publish_stage env args review =
     (case review of
        None \<Rightarrow> raise_io attribute_error
      | Some review_text \<Rightarrow>
          bind_io (if startswith review_text (lit ''Error'')
                   then bind_io (print (concat [[10060], lit '' '', review_text])) (\<lambda>u.
                        sys_exit 1)
                   else return_io ()) (\<lambda>u.
          bind_io (print ([128172] @ lit '' Posting review comment...'')) (\<lambda>u.
          bind_io (post_pr_comment env (arg_github_token args) (arg_repo args)
                     (arg_pr_number args) review_text) (\<lambda>u.
          print ([9989] @ lit '' Review completed successfully!'')))))"

definition failure_handler :: "py_exception \<Rightarrow> unit prog" where
  "failure_handler e =
     bind_io (print (concat [[10060], lit '' Error during review: '', exc_str e])) (\<lambda>u.
     bind_io (print_exc e) (\<lambda>u.
     sys_exit 1))"

definition posting_state :: "world \<Rightarrow> world" where
  "posting_state w = snd (print ([128172] @ lit '' Posting review comment...'') w)"

text \<open>
  Two properties of a program: it leaves the comments alone, and it never calls
  \<open>sys.exit\<close>.
\<close>

definition keeps_comments :: "'a prog \<Rightarrow> bool" where
  "keeps_comments m = (\<forall>w. comments (snd (m w)) = comments w)"

definition never_exits :: "'a prog \<Rightarrow> bool" where
  "never_exits m = (\<forall>w n. fst (m w) \<noteq> Exit n)"

subsection \<open>The value of a list of files in a store\<close>

text \<open>
  What \<open>==\<close> compares: the dict an element refers to, and the list of the dicts a
  list object refers to, when all its elements refer to dicts.
\<close>

fun dict_at :: "store \<Rightarrow> element \<Rightarrow> changed_file option" where
  "dict_at h (Ref d) = (case deref h d of Some (DictObj f) \<Rightarrow> Some f | _ \<Rightarrow> None)"
| "dict_at h (Val v) = None"

definition files_at :: "store \<Rightarrow> nat \<Rightarrow> changed_file list option" where
  "files_at h a =
     (case deref h a of Some (ListObj items) \<Rightarrow> those (map (dict_at h) items) | _ \<Rightarrow> None)"

subsection \<open>A test double\<close>

text \<open>
  Services that answer every call the same way: a pull request of one changed file,
  a model that approves, and two variations, one whose model call times out and one
  whose hosting API answers 404.
\<close>

definition file0 :: changed_file where
  "file0 = [lit ''filename'' \<mapsto> PStr (lit ''app.py''), lit ''status'' \<mapsto> PStr (lit ''modified''),
            lit ''additions'' \<mapsto> PInt 3, lit ''deletions'' \<mapsto> PInt 1]"

definition response_ok :: response where
  "response_ok = \<lparr>status_code = 200, resp_text = lit ''+ x = 1'', resp_json = Inr [file0],
                  http_error_msg = []\<rparr>"

definition response_not_found :: response where
  "response_not_found = \<lparr>status_code = 404, resp_text = lit ''Not Found'',
                         resp_json = Inl (PyException ''JSONDecodeError'' []),
                         http_error_msg = lit ''404 Client Error''\<rparr>"

definition env_ok :: env where
  "env_ok = \<lparr>
     env_requests_get = (\<lambda>calls url headers. Inr response_ok),
     env_get_repo = (\<lambda>calls token name. Inr ()),
     env_get_pull = (\<lambda>calls token name n. Inr \<lparr>title = lit ''Fix parser'', body = None\<rparr>),
     env_create_issue_comment = (\<lambda>calls token name n b. Inr ()),
     env_chat_create = (\<lambda>calls key req.
        Inr \<lparr>choices = [\<lparr>message = \<lparr>content = Some (lit ''Looks good.'')\<rparr>\<rparr>]\<rparr>),
     env_int = (\<lambda>s. if s = lit ''42'' then Inr 42 else Inl (PyException ''ValueError'' []))\<rparr>"

definition env_ai_down :: env where
  "env_ai_down = env_ok\<lparr>env_chat_create := (\<lambda>calls key req.
        Inl (PyException ''APITimeoutError'' (lit ''Request timed out.'')))\<rparr>"

definition env_not_found :: env where
  "env_not_found = env_ok\<lparr>env_requests_get := (\<lambda>calls url headers. Inr response_not_found)\<rparr>"

definition args0 :: args where
  "args0 = \<lparr>arg_openai_api_key = lit ''sk-test'', arg_github_token = lit ''ghp-test'',
            arg_openai_model = lit ''gpt-4-turbo-preview'', arg_pr_number = lit ''42'',
            arg_repo = lit ''acme/widgets'', arg_pr_sha = None\<rparr>"

definition world0 :: world where
  "world0 = \<lparr>stdout = [], stderr = [], api_calls = [], comments = []\<rparr>"

text \<open>
  Two stores that hold the same list of one file at address 1, laid out differently.
\<close>

definition store_a :: store where
  "store_a = [DictObj file0, ListObj [Ref 0]]"

definition store_b :: store where
  "store_b = [ListObj [], ListObj [Ref 2], DictObj file0]"

section \<open>Strings and numbers\<close>

lemma lit_eq_iff [simp]: "lit a = lit b \<longleftrightarrow> a = b"
  by (simp add: lit_def inj_map_eq_map inj_of_char)

lemma str_join_snoc: "ls \<noteq> [] \<Longrightarrow> str_join sep (ls @ [x]) = str_join sep ls @ sep @ x"
  by (induction sep ls rule: str_join.induct) auto

lemma str_int_nat: "str_int (int k) = str_nat k"
  by (simp add: str_int_def)

lemma str_nat_digit: "n < 10 \<Longrightarrow> str_nat n = [48 + n]"
  by (subst str_nat.simps) simp

text \<open>
  \<open>str_nat\<close> writes the number it is given: reading the digits back returns it.
\<close>

lemma decimal_value_str_nat: "decimal_value (str_nat n) = n"
proof (induction n rule: str_nat.induct)
  case (1 n)
  show ?case
  proof (cases "n < 10")
    case True
    then show ?thesis by (subst str_nat.simps) (simp add: decimal_value_def)
  next
    case False
    then have "decimal_value (str_nat (n div 10)) = n div 10" using 1 by simp
    then show ?thesis using False
      by (subst str_nat.simps) (simp add: decimal_value_def)
  qed
qed

section \<open>The prompt builder: properties\<close>

text \<open>
  A line is built exactly for the files that have the four keys, and then it is the
  entry of the specification.
\<close>

lemma file_line_Inr_iff:
  "file_line f = Inr l \<longleftrightarrow> (\<forall>k \<in> set summary_keys. f k \<noteq> None) \<and> l = spec_file_entry f"
  by (auto simp: file_line_def getitem_def summary_keys_def spec_file_entry_def
           split: option.splits)

lemma file_lines_Inr_iff:
  "file_lines fs = Inr ls \<longleftrightarrow>
     (\<forall>f \<in> set fs. \<forall>k \<in> set summary_keys. f k \<noteq> None) \<and> ls = map spec_file_entry fs"
proof (induction fs arbitrary: ls)
  case Nil
  show ?case by auto
next
  case (Cons f fs)
  show ?case
  proof (cases "file_line f")
    case (Inl e)
    then have "\<not> (\<forall>k \<in> set summary_keys. f k \<noteq> None)"
      using file_line_Inr_iff [of f "spec_file_entry f"] by auto
    with Inl show ?thesis by auto
  next
    case (Inr l)
    then have f: "(\<forall>k \<in> set summary_keys. f k \<noteq> None)" "l = spec_file_entry f"
      using file_line_Inr_iff [of f l] by auto
    show ?thesis
    proof (cases "file_lines fs")
      case (Inl e)
      with Cons.IH [of "map spec_file_entry fs"] Inr show ?thesis by auto
    next
      case r: (Inr ls')
      with Cons.IH [of ls'] Inr f show ?thesis by auto
    qed
  qed
qed

lemma file_summary_Inr_iff:
  "file_summary fs = Inr s \<longleftrightarrow>
     (\<forall>f \<in> set (take 20 fs). \<forall>k \<in> set summary_keys. f k \<noteq> None) \<and>
     s = str_join (lit ''\<newline>'')
           (map spec_file_entry (take 20 fs)
            @ (if 20 < length fs then [spec_more_files (length fs - 20)] else []))"
proof (cases "file_lines (take 20 fs)")
  case (Inl e)
  then have "\<not> (\<forall>f \<in> set (take 20 fs). \<forall>k \<in> set summary_keys. f k \<noteq> None)"
    using file_lines_Inr_iff [of "take 20 fs" "map spec_file_entry (take 20 fs)"] by simp
  moreover have "file_summary fs = Inl e"
    using Inl by (simp add: file_summary_def)
  ultimately show ?thesis by simp
next
  case (Inr ls)
  then have wf: "\<forall>f \<in> set (take 20 fs). \<forall>k \<in> set summary_keys. f k \<noteq> None"
    and ls: "ls = map spec_file_entry (take 20 fs)"
    using file_lines_Inr_iff [of "take 20 fs" ls] by simp_all
  show ?thesis
  proof (cases "20 < length fs")
    case True
    then have ne: "ls \<noteq> []" using ls by auto
    have cnt: "str_int (int (length fs) - 20) = str_nat (length fs - 20)"
      using True str_int_nat [of "length fs - 20"] by (simp add: of_nat_diff)
    have "file_summary fs = Inr (str_join (lit ''\<newline>'') ls @ lit ''\<newline>... and ''
            @ str_nat (length fs - 20) @ lit '' more files'')"
      using Inr True cnt by (simp add: file_summary_def)
    moreover have "str_join (lit ''\<newline>'') (ls @ [spec_more_files (length fs - 20)])
        = str_join (lit ''\<newline>'') ls @ lit ''\<newline>... and ''
            @ str_nat (length fs - 20) @ lit '' more files''"
      by (simp add: str_join_snoc [OF ne] spec_more_files_def lit_def)
    ultimately show ?thesis using wf ls True by auto
  next
    case False
    then have "file_summary fs = Inr (str_join (lit ''\<newline>'') ls)"
      using Inr by (simp add: file_summary_def)
    then show ?thesis using wf ls False by auto
  qed
qed

text \<open>
  The template with its literal pieces joined.
\<close>

lemma create_review_prompt_eq:
  "create_review_prompt diff fs t b =
     (case file_summary fs of Inl e \<Rightarrow> Inl e | Inr s \<Rightarrow>
        Inr (prompt_intro
           @ lit ''Pull Request Title: '' @ py_or t (lit ''N/A'')
           @ lit ''\<newline>Pull Request Description: '' @ py_or b (lit ''N/A'')
           @ lit ''\<newline>\<newline>Changed Files:\<newline>'' @ s
           @ lit ''\<newline>\<newline>Diff:\<newline>```\<newline>'' @ take 50000 diff
           @ lit ''  # Limit diff size to avoid token limits'' @ lit ''\<newline>```''
           @ prompt_instructions))"
  unfolding create_review_prompt_def prompt_intro_def prompt_instructions_def
  by (simp add: lit_def split: sum.splits)

lemma file0_fields: "\<forall>k \<in> set summary_keys. file0 k \<noteq> None"
  by (simp add: summary_keys_def file0_def)

lemma spec_file_entry_file0: "spec_file_entry file0 = lit ''- app.py (modified, +3/-1)''"
  by (simp add: spec_file_entry_def file0_def str_int_def str_nat_digit lit_def)

lemma prompt_of_file0s: "\<exists>p. create_review_prompt diff (replicate n file0) t b = Inr p"
proof -
  have "\<exists>s. file_summary (replicate n file0) = Inr s"
    unfolding file_summary_Inr_iff using file0_fields by (auto dest: in_set_takeD)
  then show ?thesis by (auto simp: create_review_prompt_eq)
qed

text \<open>
  A prompt is built exactly when each of the first 20 files has the four keys.
\<close>

lemma create_review_prompt_built_iff:
  "(\<exists>p. create_review_prompt diff fs t b = Inr p)
     \<longleftrightarrow> (\<forall>f \<in> set (take 20 fs). \<forall>k \<in> set summary_keys. f k \<noteq> None)"
proof -
  have "(\<exists>p. create_review_prompt diff fs t b = Inr p) \<longleftrightarrow> (\<exists>s. file_summary fs = Inr s)"
    by (cases "file_summary fs") (simp_all add: create_review_prompt_eq)
  then show ?thesis unfolding file_summary_Inr_iff by blast
qed

text \<open>
  Claim C3. A prompt is built for a list of \<open>n\<close> changed files exactly when each of
  the first \<open>min n 20\<close> files has the four keys. The file summary is then the join,
  with newlines, of the entries \<^verbatim>\<open>- {path} ({status}, +{additions}/-{deletions})\<close> of
  exactly these files in input order, followed by the single line
  \<^verbatim>\<open>... and {n-20} more files\<close> when \<open>n > 20\<close> and by nothing when \<open>n \<le> 20\<close>. The
  prompt holds this summary between the line \<^verbatim>\<open>Changed Files:\<close> and the line
  \<^verbatim>\<open>Diff:\<close>.
\<close>

theorem file_summary_lists_first_20_then_more_line:
  "((\<exists>p. create_review_prompt diff fs t b = Inr p)
      \<longleftrightarrow> (\<forall>f \<in> set (take 20 fs). \<forall>k \<in> set summary_keys. f k \<noteq> None))
   \<and> (\<forall>p. create_review_prompt diff fs t b = Inr p \<longrightarrow>
        (\<exists>s pre post.
            s = str_join (lit ''\<newline>'')
                  (map spec_file_entry (take (min (length fs) 20) fs)
                   @ (if 20 < length fs then [spec_more_files (length fs - 20)] else []))
          \<and> file_summary fs = Inr s
          \<and> p = pre @ lit ''Changed Files:\<newline>'' @ s @ lit ''\<newline>\<newline>Diff:\<newline>'' @ post))"
proof (intro conjI allI impI)
  show "(\<exists>p. create_review_prompt diff fs t b = Inr p)
      \<longleftrightarrow> (\<forall>f \<in> set (take 20 fs). \<forall>k \<in> set summary_keys. f k \<noteq> None)"
    by (rule create_review_prompt_built_iff)
next
  fix p assume p: "create_review_prompt diff fs t b = Inr p"
  obtain s where s: "file_summary fs = Inr s"
    using p by (auto simp: create_review_prompt_eq split: sum.splits)
  have tk: "take (min (length fs) 20) fs = take 20 fs" by (simp add: min_def)
  have eq: "s = str_join (lit ''\<newline>'')
            (map spec_file_entry (take (min (length fs) 20) fs)
             @ (if 20 < length fs then [spec_more_files (length fs - 20)] else []))"
    using s unfolding file_summary_Inr_iff tk by blast
  have "p = (prompt_intro
           @ lit ''Pull Request Title: '' @ py_or t (lit ''N/A'')
           @ lit ''\<newline>Pull Request Description: '' @ py_or b (lit ''N/A'')
           @ lit ''\<newline>\<newline>'') @ lit ''Changed Files:\<newline>'' @ s
           @ lit ''\<newline>\<newline>Diff:\<newline>'' @ (lit ''```\<newline>'' @ take 50000 diff
           @ lit ''  # Limit diff size to avoid token limits'' @ lit ''\<newline>```''
           @ prompt_instructions)"
    using p s by (simp add: create_review_prompt_eq) (simp add: lit_def)
  then show "\<exists>s pre post.
            s = str_join (lit ''\<newline>'')
                  (map spec_file_entry (take (min (length fs) 20) fs)
                   @ (if 20 < length fs then [spec_more_files (length fs - 20)] else []))
          \<and> file_summary fs = Inr s
          \<and> p = pre @ lit ''Changed Files:\<newline>'' @ s @ lit ''\<newline>\<newline>Diff:\<newline>'' @ post"
    using eq s by blast
qed

text \<open>
  With 25 files the summary has 20 entries and the line for the 5 others.
\<close>

theorem file_summary_lists_first_20_then_more_line_witness:
  "\<exists>p. create_review_prompt (lit ''+ x = 1'') (replicate 25 file0) None None = Inr p
     \<and> file_summary (replicate 25 file0)
         = Inr (str_join (lit ''\<newline>'')
                  (replicate 20 (lit ''- app.py (modified, +3/-1)'') @ [lit ''... and 5 more files'']))"
proof -
  note inst = file_summary_lists_first_20_then_more_line
      [of "lit ''+ x = 1''" "replicate 25 file0" None None]
  have wf: "\<forall>f \<in> set (take 20 (replicate 25 file0)). \<forall>k \<in> set summary_keys. f k \<noteq> None"
    using file0_fields by simp
  with inst obtain p where
    p: "create_review_prompt (lit ''+ x = 1'') (replicate 25 file0) None None = Inr p"
    by blast
  have more: "spec_more_files 5 = lit ''... and 5 more files''"
    by (simp add: spec_more_files_def str_nat_digit lit_def)
  from inst p have "file_summary (replicate 25 file0)
         = Inr (str_join (lit ''\<newline>'')
                  (replicate 20 (lit ''- app.py (modified, +3/-1)'') @ [lit ''... and 5 more files'']))"
    by (auto simp: spec_file_entry_file0 more)
  with p show ?thesis by blast
qed

text \<open>
  Claim C2. For every diff a prompt is built exactly when each of the first 20 files
  has the four keys. The text before the diff and the text after it do not depend on
  the diff. Between them the prompt holds the first 50000 characters of a diff longer
  than that, and the whole of a shorter one; its length grows by
  \<open>min (length diff) 50000\<close> and by no marker; the prompt of a diff is the prompt of its
  first 50000 characters.
\<close>

theorem prompt_embeds_first_50000_of_diff:
  "(\<forall>diff. (\<exists>p. create_review_prompt diff fs t b = Inr p)
      \<longleftrightarrow> (\<forall>f \<in> set (take 20 fs). \<forall>k \<in> set summary_keys. f k \<noteq> None))
   \<and> (\<exists>pre post. \<forall>diff p. create_review_prompt diff fs t b = Inr p \<longrightarrow>
          p = pre @ (if 50000 < length diff then take 50000 diff else diff) @ post
        \<and> length p = length pre + min (length diff) 50000 + length post
        \<and> create_review_prompt (take 50000 diff) fs t b = Inr p)"
proof (rule conjI)
  show "\<forall>diff. (\<exists>p. create_review_prompt diff fs t b = Inr p)
      \<longleftrightarrow> (\<forall>f \<in> set (take 20 fs). \<forall>k \<in> set summary_keys. f k \<noteq> None)"
    using create_review_prompt_built_iff by blast
next
  show "\<exists>pre post. \<forall>diff p. create_review_prompt diff fs t b = Inr p \<longrightarrow>
          p = pre @ (if 50000 < length diff then take 50000 diff else diff) @ post
        \<and> length p = length pre + min (length diff) 50000 + length post
        \<and> create_review_prompt (take 50000 diff) fs t b = Inr p"
  proof (cases "file_summary fs")
    case (Inl e)
    then show ?thesis by (simp add: create_review_prompt_eq)
  next
    case (Inr s)
    let ?pre = "prompt_intro
             @ lit ''Pull Request Title: '' @ py_or t (lit ''N/A'')
             @ lit ''\<newline>Pull Request Description: '' @ py_or b (lit ''N/A'')
             @ lit ''\<newline>\<newline>Changed Files:\<newline>'' @ s
             @ lit ''\<newline>\<newline>Diff:\<newline>```\<newline>''"
    let ?post = "lit ''  # Limit diff size to avoid token limits'' @ lit ''\<newline>```''
             @ prompt_instructions"
    have "\<forall>diff p. create_review_prompt diff fs t b = Inr p \<longrightarrow>
        p = ?pre @ (if 50000 < length diff then take 50000 diff else diff) @ ?post
      \<and> length p = length ?pre + min (length diff) 50000 + length ?post
      \<and> create_review_prompt (take 50000 diff) fs t b = Inr p"
      by (auto simp: create_review_prompt_eq Inr)
    then show ?thesis by blast
  qed
qed

theorem prompt_embeds_first_50000_of_diff_witness:
  "\<exists>pre post p. create_review_prompt (replicate 50001 120) (replicate 3 file0) None None = Inr p
     \<and> p = pre @ replicate 50000 120 @ post
     \<and> length p = length pre + 50000 + length post
     \<and> create_review_prompt (replicate 50000 120) (replicate 3 file0) None None = Inr p"
proof -
  note inst = prompt_embeds_first_50000_of_diff [of "replicate 3 file0" None None]
  have wf: "\<forall>f \<in> set (take 20 (replicate 3 file0)). \<forall>k \<in> set summary_keys. f k \<noteq> None"
    using file0_fields by simp
  with inst obtain p where
    p: "create_review_prompt (replicate 50001 120) (replicate 3 file0) None None = Inr p"
    by blast
  from inst obtain pre post where H: "\<forall>diff p.
      create_review_prompt diff (replicate 3 file0) None None = Inr p \<longrightarrow>
      p = pre @ (if 50000 < length diff then take 50000 diff else diff) @ post
    \<and> length p = length pre + min (length diff) 50000 + length post
    \<and> create_review_prompt (take 50000 diff) (replicate 3 file0) None None = Inr p"
    by blast
  from H [rule_format, OF p] p
  have "create_review_prompt (replicate 50001 120) (replicate 3 file0) None None = Inr p
     \<and> p = pre @ replicate 50000 120 @ post
     \<and> length p = length pre + 50000 + length post
     \<and> create_review_prompt (replicate 50000 120) (replicate 3 file0) None None = Inr p"
    by simp
  then show ?thesis by blast
qed

text \<open>
  Claim C10. For every diff a prompt is built exactly when each of the first 20
  files has the four keys. In every prompt the embedded diff, which follows the opening
  code fence, is followed at once by the text of the source comment
  \<^verbatim>\<open>  # Limit diff size to avoid token limits\<close>, and the closing fence comes on the
  next line.
\<close>

theorem prompt_has_comment_text_after_diff:
  "(\<forall>diff. (\<exists>p. create_review_prompt diff fs t b = Inr p)
      \<longleftrightarrow> (\<forall>f \<in> set (take 20 fs). \<forall>k \<in> set summary_keys. f k \<noteq> None))
   \<and> (\<exists>pre post. \<forall>diff p. create_review_prompt diff fs t b = Inr p \<longrightarrow>
        p = pre @ lit ''Diff:\<newline>```\<newline>'' @ take 50000 diff
              @ lit ''  # Limit diff size to avoid token limits'' @ lit ''\<newline>```\<newline>'' @ post)"
proof (rule conjI)
  show "\<forall>diff. (\<exists>p. create_review_prompt diff fs t b = Inr p)
      \<longleftrightarrow> (\<forall>f \<in> set (take 20 fs). \<forall>k \<in> set summary_keys. f k \<noteq> None)"
    using create_review_prompt_built_iff by blast
next
  show "\<exists>pre post. \<forall>diff p. create_review_prompt diff fs t b = Inr p \<longrightarrow>
        p = pre @ lit ''Diff:\<newline>```\<newline>'' @ take 50000 diff
              @ lit ''  # Limit diff size to avoid token limits'' @ lit ''\<newline>```\<newline>'' @ post"
  proof (cases "file_summary fs")
    case (Inl e)
    then show ?thesis by (simp add: create_review_prompt_eq)
  next
    case (Inr s)
    let ?pre = "prompt_intro
             @ lit ''Pull Request Title: '' @ py_or t (lit ''N/A'')
             @ lit ''\<newline>Pull Request Description: '' @ py_or b (lit ''N/A'')
             @ lit ''\<newline>\<newline>Changed Files:\<newline>'' @ s @ lit ''\<newline>\<newline>''"
    have "\<forall>diff p. create_review_prompt diff fs t b = Inr p \<longrightarrow>
        p = ?pre @ lit ''Diff:\<newline>```\<newline>'' @ take 50000 diff
              @ lit ''  # Limit diff size to avoid token limits'' @ lit ''\<newline>```\<newline>''
              @ tl (prompt_instructions)"
      by (auto simp: create_review_prompt_eq Inr) (simp add: lit_def prompt_instructions_def)
    then show ?thesis by blast
  qed
qed

theorem prompt_has_comment_text_after_diff_witness:
  "\<exists>pre post p. create_review_prompt (lit ''+ x = 1'') (replicate 3 file0) None None = Inr p
     \<and> p = pre @ lit ''Diff:\<newline>```\<newline>'' @ lit ''+ x = 1''
            @ lit ''  # Limit diff size to avoid token limits'' @ lit ''\<newline>```\<newline>'' @ post"
proof -
  note inst = prompt_has_comment_text_after_diff [of "replicate 3 file0" None None]
  have wf: "\<forall>f \<in> set (take 20 (replicate 3 file0)). \<forall>k \<in> set summary_keys. f k \<noteq> None"
    using file0_fields by simp
  with inst obtain p where
    p: "create_review_prompt (lit ''+ x = 1'') (replicate 3 file0) None None = Inr p"
    by blast
  from inst obtain pre post where H: "\<forall>diff p.
      create_review_prompt diff (replicate 3 file0) None None = Inr p \<longrightarrow>
      p = pre @ lit ''Diff:\<newline>```\<newline>'' @ take 50000 diff
            @ lit ''  # Limit diff size to avoid token limits'' @ lit ''\<newline>```\<newline>'' @ post"
    by blast
  have "take 50000 (lit ''+ x = 1'') = lit ''+ x = 1''" by (simp add: lit_def)
  with H [rule_format, OF p] p
  have "create_review_prompt (lit ''+ x = 1'') (replicate 3 file0) None None = Inr p
     \<and> p = pre @ lit ''Diff:\<newline>```\<newline>'' @ lit ''+ x = 1''
            @ lit ''  # Limit diff size to avoid token limits'' @ lit ''\<newline>```\<newline>'' @ post"
    by simp
  then show ?thesis by blast
qed

text \<open>
  Claim C5. A prompt is built exactly when each of the first 20 files has the four
  keys, whatever the title and the body are. In it a title that is \<open>None\<close> or left out
  (the default, the empty string) is rendered as \<^verbatim>\<open>N/A\<close> on the title line, and a
  body that is \<open>None\<close> or left out as \<^verbatim>\<open>N/A\<close> on the description line.
\<close>

theorem prompt_renders_NA_for_missing_title_or_body:
  "((\<exists>p. create_review_prompt diff fs t b = Inr p)
      \<longleftrightarrow> (\<forall>f \<in> set (take 20 fs). \<forall>k \<in> set summary_keys. f k \<noteq> None))
   \<and> (\<forall>p. create_review_prompt diff fs t b = Inr p \<longrightarrow>
        ((t = None \<or> t = Some []) \<longrightarrow>
           (\<exists>post. p = prompt_intro @ lit ''Pull Request Title: N/A\<newline>'' @ post))
      \<and> ((b = None \<or> b = Some []) \<longrightarrow>
           (\<exists>post. p = prompt_intro @ lit ''Pull Request Title: '' @ py_or t (lit ''N/A'')
                 @ lit ''\<newline>Pull Request Description: N/A\<newline>'' @ post)))"
proof (intro conjI allI impI)
  show "(\<exists>p. create_review_prompt diff fs t b = Inr p)
      \<longleftrightarrow> (\<forall>f \<in> set (take 20 fs). \<forall>k \<in> set summary_keys. f k \<noteq> None)"
    by (rule create_review_prompt_built_iff)
next
  fix p assume built: "create_review_prompt diff fs t b = Inr p"
  then obtain s where s: "file_summary fs = Inr s"
    by (auto simp: create_review_prompt_eq split: sum.splits)
  have p: "p = prompt_intro
           @ lit ''Pull Request Title: '' @ py_or t (lit ''N/A'')
           @ lit ''\<newline>Pull Request Description: '' @ py_or b (lit ''N/A'')
           @ lit ''\<newline>\<newline>Changed Files:\<newline>'' @ s
           @ lit ''\<newline>\<newline>Diff:\<newline>```\<newline>'' @ take 50000 diff
           @ lit ''  # Limit diff size to avoid token limits'' @ lit ''\<newline>```''
           @ prompt_instructions"
    using built s by (simp add: create_review_prompt_eq)
  have NA: "py_or None (lit ''N/A'') = lit ''N/A''" "py_or (Some []) (lit ''N/A'') = lit ''N/A''"
    by (simp_all add: py_or_def)
  have tt: "lit ''Pull Request Title: '' @ lit ''N/A'' @ lit ''\<newline>Pull Request Description: '' @ r
         = lit ''Pull Request Title: N/A\<newline>'' @ lit ''Pull Request Description: '' @ r" for r
    by (simp add: lit_def)
  have bb: "lit ''\<newline>Pull Request Description: '' @ lit ''N/A'' @ lit ''\<newline>\<newline>Changed Files:\<newline>'' @ r
         = lit ''\<newline>Pull Request Description: N/A\<newline>'' @ lit ''\<newline>Changed Files:\<newline>'' @ r" for r
    by (simp add: lit_def)
  {
    assume "t = None \<or> t = Some []"
    then have "py_or t (lit ''N/A'') = lit ''N/A''" using NA by auto
    then show "\<exists>post. p = prompt_intro @ lit ''Pull Request Title: N/A\<newline>'' @ post"
      unfolding p by (simp only: tt) blast
  }
  {
    assume "b = None \<or> b = Some []"
    then have "py_or b (lit ''N/A'') = lit ''N/A''" using NA by auto
    then show "\<exists>post. p = prompt_intro @ lit ''Pull Request Title: '' @ py_or t (lit ''N/A'')
                 @ lit ''\<newline>Pull Request Description: N/A\<newline>'' @ post"
      unfolding p by (simp only: bb) blast
  }
qed

theorem prompt_renders_NA_for_missing_title_or_body_witness:
  "\<exists>p post. create_review_prompt (lit ''+ x = 1'') (replicate 3 file0) None (Some []) = Inr p
     \<and> p = prompt_intro @ lit ''Pull Request Title: N/A\<newline>''
            @ lit ''Pull Request Description: N/A\<newline>'' @ post"
proof -
  note inst = prompt_renders_NA_for_missing_title_or_body
      [of "lit ''+ x = 1''" "replicate 3 file0" None "Some []"]
  have wf: "\<forall>f \<in> set (take 20 (replicate 3 file0)). \<forall>k \<in> set summary_keys. f k \<noteq> None"
    using file0_fields by simp
  with inst obtain p where
    p: "create_review_prompt (lit ''+ x = 1'') (replicate 3 file0) None (Some []) = Inr p"
    by blast
  have na: "py_or None (lit ''N/A'') = lit ''N/A''" by (simp add: py_or_def)
  have j: "lit ''Pull Request Title: '' @ lit ''N/A'' @ lit ''\<newline>Pull Request Description: N/A\<newline>'' @ r
      = lit ''Pull Request Title: N/A\<newline>'' @ lit ''Pull Request Description: N/A\<newline>'' @ r" for r
    by (simp add: lit_def)
  from inst p obtain post where "p = prompt_intro @ lit ''Pull Request Title: '' @ py_or None (lit ''N/A'')
                 @ lit ''\<newline>Pull Request Description: N/A\<newline>'' @ post"
    by blast
  then have "p = prompt_intro @ lit ''Pull Request Title: N/A\<newline>''
            @ lit ''Pull Request Description: N/A\<newline>'' @ post"
    by (simp add: na j)
  with p show ?thesis by blast
qed

section \<open>The prompt builder on the object store: properties\<close>

lemma deref_snoc:
  "deref (h @ [ob]) a = (if a = length h then Some ob else deref h a)"
  by (auto simp: deref_def nth_append)

lemma length_list_append [simp]: "length (list_append h r x) = length h"
  by (simp add: list_append_def split: option.splits pyobj.splits)

lemma nth_list_append_other: "a \<noteq> r \<Longrightarrow> list_append h r x ! a = h ! a"
  by (simp add: list_append_def split: option.splits pyobj.splits)

text \<open>
  The loop changes the list it builds and nothing else.
\<close>

lemma comprehension_frame:
  "length (snd (comprehension h r xs)) = length h
   \<and> (\<forall>a. a \<noteq> r \<longrightarrow> snd (comprehension h r xs) ! a = h ! a)"
proof (induction h r xs rule: comprehension.induct)
  case (1 h r)
  show ?case by simp
next
  case (2 h r v xs)
  show ?case by simp
next
  case (3 h r d xs)
  show ?case
  proof (cases "deref h d")
    case None
    then show ?thesis by simp
  next
    case (Some ob)
    show ?thesis
    proof (cases ob)
      case (ListObj ys)
      with Some show ?thesis by simp
    next
      case (DictObj f)
      show ?thesis
      proof (cases "file_line f")
        case (Inl e)
        with Some DictObj show ?thesis by simp
      next
        case (Inr l)
        with 3 [OF Some DictObj Inr] Some DictObj show ?thesis
          by (simp add: nth_list_append_other)
      qed
    qed
  qed
qed

lemma those_eq_Some: "those xs = Some ys \<longleftrightarrow> xs = map Some ys"
proof (induction xs arbitrary: ys)
  case Nil
  show ?case by auto
next
  case (Cons x xs)
  show ?case
  proof (cases x)
    case None
    then show ?thesis by auto
  next
    case (Some a)
    then show ?thesis using Cons [of "tl ys"]
      by (cases ys) (auto split: option.splits)
  qed
qed

lemma dict_at_Some: "dict_at h x = Some f \<longleftrightarrow> (\<exists>d. x = Ref d \<and> d < length h \<and> h ! d = DictObj f)"
  by (cases x) (auto simp: deref_def split: pyobj.splits)

lemma files_at_Some:
  "files_at h a = Some fs \<longleftrightarrow>
     (\<exists>items. a < length h \<and> h ! a = ListObj items \<and> map (dict_at h) items = map Some fs)"
  by (auto simp: files_at_def deref_def those_eq_Some split: pyobj.splits)

lemma dict_at_list_append:
  "r < length h \<Longrightarrow> h ! r = ListObj acc \<Longrightarrow> dict_at (list_append h r x) y = dict_at h y"
  by (cases y) (auto simp: list_append_def deref_def nth_list_update split: pyobj.splits)

lemma joinable_strs: "joinable (map (\<lambda>l. Val (PStr l)) ls) = Some ls"
  by (induction ls) auto

text \<open>
  On elements that refer to dicts the loop raises what \<open>file_lines\<close> raises, and
  otherwise leaves the lines of \<open>file_lines\<close> in the list it builds.
\<close>

lemma comprehension_value:
  assumes "r < length h" "h ! r = ListObj acc" "map (dict_at h) xs = map Some fs"
  shows "fst (comprehension h r xs) = (case file_lines fs of Inl e \<Rightarrow> Some e | Inr ls \<Rightarrow> None)
       \<and> (\<forall>ls. file_lines fs = Inr ls \<longrightarrow>
             snd (comprehension h r xs) ! r = ListObj (acc @ map (\<lambda>l. Val (PStr l)) ls))"
  using assms
proof (induction xs arbitrary: h acc fs)
  case Nil
  then show ?case by simp
next
  case (Cons x xs)
  from Cons.prems(3) obtain f fs' where fs: "fs = f # fs'" and x: "dict_at h x = Some f"
    and xs: "map (dict_at h) xs = map Some fs'"
    by (cases fs) auto
  from x obtain d where d: "x = Ref d" "d < length h" "h ! d = DictObj f"
    unfolding dict_at_Some by blast
  have dd: "deref h d = Some (DictObj f)" using d by (simp add: deref_def)
  show ?case
  proof (cases "file_line f")
    case (Inl e)
    then show ?thesis using d dd fs by simp
  next
    case (Inr l)
    let ?h = "list_append h r (Val (PStr l))"
    have h': "?h = h[r := ListObj (acc @ [Val (PStr l)])]"
      using Cons.prems(1,2) by (simp add: list_append_def deref_def)
    have 1: "r < length ?h" using Cons.prems(1) by simp
    have 2: "?h ! r = ListObj (acc @ [Val (PStr l)])"
      using Cons.prems(1) by (simp add: h')
    have "dict_at ?h = dict_at h"
      by (rule ext) (rule dict_at_list_append [OF Cons.prems(1,2)])
    then have 3: "map (dict_at ?h) xs = map Some fs'"
      using xs by simp
    from Cons.IH [OF 1 2 3]
    show ?thesis using d dd fs Inr by (auto split: sum.splits)
  qed
qed

lemma snd_file_summary_store:
  "snd (file_summary_store h cf) =
     (case deref h cf of
        Some (ListObj items) \<Rightarrow>
          snd (comprehension (h @ [ListObj (take 20 items), ListObj []]) (Suc (length h))
                 (take 20 items))
      | _ \<Rightarrow> h)"
  by (simp add: file_summary_store_def new_object_def Let_def
      split: option.splits pyobj.splits prod.splits if_splits)

lemma file_summary_store_frame:
  "length h \<le> length (snd (file_summary_store h cf))
   \<and> (\<forall>a<length h. snd (file_summary_store h cf) ! a = h ! a)"
proof (cases "deref h cf")
  case None
  then show ?thesis by (simp add: snd_file_summary_store)
next
  case (Some ob)
  show ?thesis
  proof (cases ob)
    case (DictObj f)
    with Some show ?thesis by (simp add: snd_file_summary_store)
  next
    case (ListObj items)
    let ?h2 = "h @ [ListObj (take 20 items), ListObj []]"
    note fr = comprehension_frame [of ?h2 "Suc (length h)" "take 20 items"]
    have s: "snd (file_summary_store h cf)
        = snd (comprehension ?h2 (Suc (length h)) (take 20 items))"
      using Some ListObj by (simp add: snd_file_summary_store)
    show ?thesis unfolding s using fr by (auto simp: nth_append)
  qed
qed

lemma dict_at_extend: "dict_at h x = Some f \<Longrightarrow> dict_at (h @ ys) x = Some f"
  unfolding dict_at_Some by (auto simp: nth_append)

lemma map_dict_at_extend:
  "map (dict_at h) xs = map Some fs \<Longrightarrow> map (dict_at (h @ ys)) xs = map Some fs"
proof (induction xs arbitrary: fs)
  case Nil
  then show ?case by simp
next
  case (Cons x xs)
  then obtain f fs' where "fs = f # fs'" "dict_at h x = Some f" "map (dict_at h) xs = map Some fs'"
    by (cases fs) auto
  then show ?case using Cons.IH [of fs'] dict_at_extend [of h x f ys] by simp
qed

text \<open>
  On a list of dicts the summary computed on the store is the summary of the values.
\<close>

lemma file_summary_store_value:
  assumes "files_at h cf = Some fs"
  shows "fst (file_summary_store h cf) = file_summary fs"
proof -
  from assms obtain items where cf: "cf < length h" "h ! cf = ListObj items"
    and items: "map (dict_at h) items = map Some fs"
    unfolding files_at_Some by blast
  have len: "length items = length fs" using items by (metis length_map)
  let ?h2 = "h @ [ListObj (take 20 items), ListObj []]"
  let ?r = "Suc (length h)"
  have d: "deref h cf = Some (ListObj items)" using cf by (simp add: deref_def)
  have r: "?r < length ?h2" "?h2 ! ?r = ListObj []" by (simp_all add: nth_append)
  have "map (dict_at ?h2) items = map Some fs" by (rule map_dict_at_extend [OF items])
  then have tk: "map (dict_at ?h2) (take 20 items) = map Some (take 20 fs)"
    by (simp add: take_map [symmetric])
  note val = comprehension_value [OF r tk]
  note fr = comprehension_frame [of ?h2 ?r "take 20 items"]
  obtain raised h3 where c: "comprehension ?h2 ?r (take 20 items) = (raised, h3)"
    by (cases "comprehension ?h2 ?r (take 20 items)")
  have h3len: "length h3 = length ?h2" and h3cf: "h3 ! cf = ListObj items"
    using fr c cf by (auto simp: nth_append)
  have dcf: "deref h3 cf = Some (ListObj items)"
    using h3len h3cf cf by (simp add: deref_def)
  show ?thesis
  proof (cases "file_lines (take 20 fs)")
    case (Inl e)
    then have "raised = Some e" using val c by simp
    then show ?thesis using d c Inl
      by (simp add: file_summary_store_def new_object_def file_summary_def)
  next
    case (Inr ls)
    then have "raised = None" and "h3 ! ?r = ListObj (map (\<lambda>l. Val (PStr l)) ls)"
      using val c by simp_all
    then have "deref h3 ?r = Some (ListObj (map (\<lambda>l. Val (PStr l)) ls))"
      using h3len by (simp add: deref_def)
    then show ?thesis using d c Inr \<open>raised = None\<close> dcf len
      by (simp add: file_summary_store_def new_object_def file_summary_def joinable_strs Let_def)
  qed
qed

lemma create_review_prompt_store_eq:
  "create_review_prompt_store h diff cf t b =
     (case fst (file_summary_store h cf) of
        Inl e \<Rightarrow> Inl e
      | Inr s \<Rightarrow>
        Inr (prompt_intro
           @ lit ''Pull Request Title: '' @ py_or t (lit ''N/A'')
           @ lit ''\<newline>Pull Request Description: '' @ py_or b (lit ''N/A'')
           @ lit ''\<newline>\<newline>Changed Files:\<newline>'' @ s
           @ lit ''\<newline>\<newline>Diff:\<newline>```\<newline>'' @ take 50000 diff
           @ lit ''  # Limit diff size to avoid token limits'' @ lit ''\<newline>```''
           @ prompt_instructions),
      snd (file_summary_store h cf))"
  unfolding create_review_prompt_store_def prompt_intro_def prompt_instructions_def
  by (simp add: lit_def split: sum.splits prod.splits)

lemma create_review_prompt_store_allocates:
  assumes "deref h cf = Some (ListObj items)"
  shows "length (snd (create_review_prompt_store h diff cf t b)) = length h + 2"
proof -
  have "snd (create_review_prompt_store h diff cf t b)
      = snd (comprehension (h @ [ListObj (take 20 items), ListObj []]) (Suc (length h))
               (take 20 items))"
    using assms by (simp add: create_review_prompt_store_eq snd_file_summary_store)
  then show ?thesis
    using comprehension_frame [of "h @ [ListObj (take 20 items), ListObj []]" "Suc (length h)"
        "take 20 items"]
    by simp
qed

text \<open>
  Claim C8. A call of \<open>create_review_prompt\<close> creates objects and changes none:
  every object that was in the store before the call, the arguments and all others, is
  the same object after it, and the list of files the argument denotes is the same
  list. The result is determined by the values of the arguments: for a list of dicts it
  is what the function of values \<open>create_review_prompt\<close> gives, so two calls with
  equal diff, equal lists of files, equal title and equal body return the same prompt,
  or raise the same exception, from whatever stores and addresses they are made. The
  body calls no service and prints nothing: the store is all the state it can reach.
\<close>

theorem create_review_prompt_reads_only:
  "length h \<le> length (snd (create_review_prompt_store h diff cf t b))
   \<and> (\<forall>a<length h. snd (create_review_prompt_store h diff cf t b) ! a = h ! a)
   \<and> (\<forall>fs. files_at h cf = Some fs \<longrightarrow>
          files_at (snd (create_review_prompt_store h diff cf t b)) cf = Some fs
        \<and> fst (create_review_prompt_store h diff cf t b) = create_review_prompt diff fs t b
        \<and> (\<forall>h' cf'. files_at h' cf' = Some fs \<longrightarrow>
              fst (create_review_prompt_store h' diff cf' t b)
                = fst (create_review_prompt_store h diff cf t b)))"
proof -
  let ?h = "snd (create_review_prompt_store h diff cf t b)"
  have s: "?h = snd (file_summary_store h cf)"
    by (simp add: create_review_prompt_store_eq)
  have fr: "length h \<le> length ?h" "\<forall>a<length h. ?h ! a = h ! a"
    unfolding s using file_summary_store_frame by blast+
  have val: "fst (create_review_prompt_store h' diff cf' t b) = create_review_prompt diff fs t b"
    if "files_at h' cf' = Some fs" for h' cf' fs
    using file_summary_store_value [OF that]
    by (simp add: create_review_prompt_store_eq create_review_prompt_eq)
  have keep: "files_at ?h cf = Some fs" if a: "files_at h cf = Some fs" for fs
  proof -
    from a obtain items where cf: "cf < length h" "h ! cf = ListObj items"
      and items: "map (dict_at h) items = map Some fs"
      unfolding files_at_Some by blast
    have "dict_at ?h x = Some f" if "dict_at h x = Some f" for x f
      using that fr unfolding dict_at_Some by auto
    then have "map (dict_at ?h) items = map Some fs"
      using items
    proof (induction items arbitrary: fs)
      case Nil
      then show ?case by simp
    next
      case (Cons x xs)
      then obtain f fs' where "fs = f # fs'" "dict_at h x = Some f"
        "map (dict_at h) xs = map Some fs'"
        by (cases fs) auto
      then show ?case using Cons.IH [of fs'] Cons.prems(1) by simp
    qed
    then show ?thesis unfolding files_at_Some using cf fr by auto
  qed
  show ?thesis using fr val keep by auto
qed

theorem create_review_prompt_reads_only_witness:
  "files_at store_a 1 = Some [file0] \<and> files_at store_b 1 = Some [file0]
   \<and> snd (create_review_prompt_store store_a (lit ''+ x = 1'') 1 None None) ! 0 = DictObj file0
   \<and> snd (create_review_prompt_store store_a (lit ''+ x = 1'') 1 None None) ! 1 = ListObj [Ref 0]
   \<and> length (snd (create_review_prompt_store store_a (lit ''+ x = 1'') 1 None None)) = 4
   \<and> files_at (snd (create_review_prompt_store store_a (lit ''+ x = 1'') 1 None None)) 1
       = Some [file0]
   \<and> fst (create_review_prompt_store store_a (lit ''+ x = 1'') 1 None None)
       = create_review_prompt (lit ''+ x = 1'') [file0] None None
   \<and> fst (create_review_prompt_store store_b (lit ''+ x = 1'') 1 None None)
       = fst (create_review_prompt_store store_a (lit ''+ x = 1'') 1 None None)"
proof -
  have a: "files_at store_a 1 = Some [file0]"
    by (simp add: files_at_def store_a_def deref_def)
  have b: "files_at store_b 1 = Some [file0]"
    by (simp add: files_at_def store_b_def deref_def)
  note inst = create_review_prompt_reads_only [of store_a "lit ''+ x = 1''" 1 None None]
  have la: "length store_a = 2" "store_a ! 0 = DictObj file0" "store_a ! 1 = ListObj [Ref 0]"
    by (simp_all add: store_a_def)
  have old: "snd (create_review_prompt_store store_a (lit ''+ x = 1'') 1 None None) ! 0 = DictObj file0"
    "snd (create_review_prompt_store store_a (lit ''+ x = 1'') 1 None None) ! 1 = ListObj [Ref 0]"
    using inst la by auto
  have len: "length (snd (create_review_prompt_store store_a (lit ''+ x = 1'') 1 None None)) = 4"
  proof -
    have "deref store_a 1 = Some (ListObj [Ref 0])" by (simp add: deref_def store_a_def)
    from create_review_prompt_store_allocates [OF this] show ?thesis by (simp add: la)
  qed
  from inst a b old len show ?thesis by simp
qed

section \<open>The pipeline: properties\<close>

lemmas io_defs = bind_io_def return_io_def raise_io_def sys_exit_def try_except_def
  lift_io_def print_def print_exc_def

lemmas double_defs = env_ok_def env_ai_down_def env_not_found_def args0_def world0_def
  response_ok_def response_not_found_def

lemma bind_io_assoc: "bind_io (bind_io m f) g = bind_io m (\<lambda>x. bind_io (f x) g)"
  by (rule ext) (simp add: bind_io_def split: prod.splits result.splits)

lemma try_except_print:
  "try_except (bind_io (print s) f) h = bind_io (print s) (\<lambda>u. try_except (f u) h)"
  by (rule ext) (simp add: bind_io_def try_except_def print_def)

text \<open>
  \<open>main\<close> is the review stage, then the publish stage, under the handler.
\<close>

lemma main_stages:
  "main env args =
     try_except (bind_io (review_stage env args) (publish_stage env args)) failure_handler"
  unfolding main_def review_stage_def publish_stage_def failure_handler_def Let_def
    bind_io_assoc try_except_print
  by (rule refl)

lemma main_run:
  "main env args w =
     (case review_stage env args w of
        (Raise e, w1) \<Rightarrow> failure_handler e w1
      | (Exit n, w1) \<Rightarrow> (Exit n, w1)
      | (Return review, w1) \<Rightarrow>
          (case publish_stage env args review w1 of
             (Raise e, w2) \<Rightarrow> failure_handler e w2
           | (Exit n, w2) \<Rightarrow> (Exit n, w2)
           | (Return u, w2) \<Rightarrow> (Return u, w2)))"
  by (simp add: main_stages try_except_def bind_io_def split: prod.splits result.splits)

subsection \<open>What preserves the comments, and what never exits\<close>

lemma keeps_comments_bind:
  "keeps_comments m \<Longrightarrow> (\<And>x. keeps_comments (f x)) \<Longrightarrow> keeps_comments (bind_io m f)"
  unfolding keeps_comments_def bind_io_def
  by (auto split: prod.splits result.splits) (metis snd_conv)+

lemma keeps_comments_try:
  "keeps_comments m \<Longrightarrow> (\<And>e. keeps_comments (h e)) \<Longrightarrow> keeps_comments (try_except m h)"
  unfolding keeps_comments_def try_except_def
  by (auto split: prod.splits result.splits) (metis snd_conv)+

lemma keeps_comments_basic:
  "keeps_comments (return_io x)" "keeps_comments (raise_io e)" "keeps_comments (sys_exit n)"
  "keeps_comments (lift_io r)" "keeps_comments (print s)" "keeps_comments (print_exc e)"
  by (auto simp: keeps_comments_def io_defs split: sum.splits)

lemma keeps_comments_calls:
  "keeps_comments (requests_get env url headers)"
  "keeps_comments (get_repo env token name)"
  "keeps_comments (get_pull env token name n)"
  "keeps_comments (chat_completions_create env key req)"
  "keeps_comments (raise_for_status r)"
  by (auto simp: keeps_comments_def requests_get_def get_repo_def get_pull_def
        chat_completions_create_def raise_for_status_def io_defs split: sum.splits)

lemma keeps_comments_fetch:
  "keeps_comments (get_pr_diff env token name n)"
  "keeps_comments (get_changed_files env token name n)"
  unfolding get_pr_diff_def get_changed_files_def Let_def
  by (intro keeps_comments_bind keeps_comments_basic keeps_comments_calls)+

lemma keeps_comments_review: "keeps_comments (review_with_ai env key model prompt)"
  unfolding review_with_ai_def
  by (intro keeps_comments_try keeps_comments_bind keeps_comments_basic keeps_comments_calls)
     (auto split: list.splits intro: keeps_comments_basic)

lemma keeps_comments_review_stage: "keeps_comments (review_stage env args)"
  unfolding review_stage_def
  by (intro keeps_comments_bind keeps_comments_basic keeps_comments_calls
        keeps_comments_fetch keeps_comments_review)

lemma never_exits_bind:
  "never_exits m \<Longrightarrow> (\<And>x. never_exits (f x)) \<Longrightarrow> never_exits (bind_io m f)"
  unfolding never_exits_def bind_io_def
  by (auto split: prod.splits result.splits) (metis fst_conv)+

lemma never_exits_try:
  "never_exits m \<Longrightarrow> (\<And>e. never_exits (h e)) \<Longrightarrow> never_exits (try_except m h)"
  unfolding never_exits_def try_except_def
  by (auto split: prod.splits result.splits) (metis fst_conv)+

lemma never_exits_basic:
  "never_exits (return_io x)" "never_exits (raise_io e)"
  "never_exits (lift_io r)" "never_exits (print s)" "never_exits (print_exc e)"
  by (auto simp: never_exits_def io_defs split: sum.splits)

lemma never_exits_calls:
  "never_exits (requests_get env url headers)"
  "never_exits (get_repo env token name)"
  "never_exits (get_pull env token name n)"
  "never_exits (chat_completions_create env key req)"
  "never_exits (create_issue_comment env token name n b)"
  "never_exits (raise_for_status r)"
  by (auto simp: never_exits_def requests_get_def get_repo_def get_pull_def
        chat_completions_create_def create_issue_comment_def raise_for_status_def io_defs
        split: sum.splits)

lemma never_exits_fetch:
  "never_exits (get_pr_diff env token name n)"
  "never_exits (get_changed_files env token name n)"
  unfolding get_pr_diff_def get_changed_files_def Let_def
  by (intro never_exits_bind never_exits_basic never_exits_calls)+

lemma never_exits_review: "never_exits (review_with_ai env key model prompt)"
  unfolding review_with_ai_def
  by (intro never_exits_try never_exits_bind never_exits_basic never_exits_calls)
     (auto split: list.splits intro: never_exits_basic)

lemma never_exits_review_stage: "never_exits (review_stage env args)"
  unfolding review_stage_def
  by (intro never_exits_bind never_exits_basic never_exits_calls
        never_exits_fetch never_exits_review)

subsection \<open>The review requester\<close>

text \<open>
  Claim C4. \<open>review_with_ai\<close> makes one chat-completion call, for the given model
  and with the prompt as the user message. When the call returns a completion with a
  first choice, the result is the content of that choice's message. When the call
  raises, the result is the string \<^verbatim>\<open>Error during AI review: \<close> followed by the
  description of the exception, which starts with \<^verbatim>\<open>Error\<close>; a completion with no
  choice is treated the same way, the \<open>IndexError\<close> being raised inside the \<open>try\<close>. In
  every case the function returns: it neither raises nor exits.
\<close>

theorem review_with_ai_returns_content_or_error_string:
  "\<exists>req. req_model req = model \<and> last (req_messages req) = (lit ''user'', prompt)
     \<and> api_calls (snd (review_with_ai env key model prompt w))
          = api_calls w @ [ChatCompletionsCreate key req]
     \<and> (\<forall>resp c cs. env_chat_create env (api_calls w) key req = Inr resp \<and> choices resp = c # cs
           \<longrightarrow> fst (review_with_ai env key model prompt w) = Return (content (message c)))
     \<and> (\<forall>e. env_chat_create env (api_calls w) key req = Inl e
           \<longrightarrow> fst (review_with_ai env key model prompt w)
                 = Return (Some (lit ''Error'' @ lit '' during AI review: '' @ exc_str e)))
     \<and> (\<forall>resp. env_chat_create env (api_calls w) key req = Inr resp \<and> choices resp = []
           \<longrightarrow> fst (review_with_ai env key model prompt w)
                 = Return (Some (lit ''Error'' @ lit '' during AI review: '' @ exc_str index_error)))
     \<and> (\<forall>s. startswith (lit ''Error'' @ s) (lit ''Error''))
     \<and> (\<exists>x. fst (review_with_ai env key model prompt w) = Return x)"
  unfolding review_with_ai_def
  by (rule exI [of _ "\<lparr>req_model = model,
             req_messages =
               [(lit ''system'', lit ''You are an expert software engineer and code reviewer with deep knowledge of best practices, security, performance, and code quality.''),
                (lit ''user'', prompt)],
             req_temperature = ''0.3'',
             req_max_tokens = 2000\<rparr>"])
     (auto simp: chat_completions_create_def io_defs startswith_def lit_def
           split: sum.splits list.splits)

theorem review_with_ai_returns_content_or_error_string_witness:
  "fst (review_with_ai env_ai_down (lit ''sk-test'') (lit ''gpt-4-turbo-preview'') (lit ''Review this'') world0)
     = Return (Some (lit ''Error'' @ lit '' during AI review: '' @ lit ''Request timed out.''))
   \<and> fst (review_with_ai env_ok (lit ''sk-test'') (lit ''gpt-4-turbo-preview'') (lit ''Review this'') world0)
     = Return (Some (lit ''Looks good.''))"
proof -
  obtain req where a: "\<forall>e. env_chat_create env_ai_down (api_calls world0) (lit ''sk-test'') req = Inl e
           \<longrightarrow> fst (review_with_ai env_ai_down (lit ''sk-test'') (lit ''gpt-4-turbo-preview'') (lit ''Review this'') world0)
                 = Return (Some (lit ''Error'' @ lit '' during AI review: '' @ exc_str e))"
    using review_with_ai_returns_content_or_error_string
      [of "lit ''gpt-4-turbo-preview''" "lit ''Review this''" env_ai_down "lit ''sk-test''" world0]
    by blast
  obtain req' where b: "\<forall>resp c cs. env_chat_create env_ok (api_calls world0) (lit ''sk-test'') req' = Inr resp
           \<and> choices resp = c # cs
           \<longrightarrow> fst (review_with_ai env_ok (lit ''sk-test'') (lit ''gpt-4-turbo-preview'') (lit ''Review this'') world0)
                 = Return (content (message c))"
    using review_with_ai_returns_content_or_error_string
      [of "lit ''gpt-4-turbo-preview''" "lit ''Review this''" env_ok "lit ''sk-test''" world0]
    by blast
  have "env_chat_create env_ai_down (api_calls world0) (lit ''sk-test'') req
      = Inl (PyException ''APITimeoutError'' (lit ''Request timed out.''))"
    by (simp add: double_defs)
  with a have 1: "fst (review_with_ai env_ai_down (lit ''sk-test'') (lit ''gpt-4-turbo-preview'') (lit ''Review this'') world0)
     = Return (Some (lit ''Error'' @ lit '' during AI review: '' @ lit ''Request timed out.''))"
    by force
  have "env_chat_create env_ok (api_calls world0) (lit ''sk-test'') req'
      = Inr \<lparr>choices = [\<lparr>message = \<lparr>content = Some (lit ''Looks good.'')\<rparr>\<rparr>]\<rparr>"
    by (simp add: double_defs)
  with b have 2: "fst (review_with_ai env_ok (lit ''sk-test'') (lit ''gpt-4-turbo-preview'') (lit ''Review this'') world0)
     = Return (Some (lit ''Looks good.''))"
    by force
  from 1 2 show ?thesis by simp
qed

subsection \<open>The fetchers\<close>

text \<open>
  Claim C6. Each fetcher issues one GET, to the pull request resp. to its
  \<^verbatim>\<open>/files\<close> resource. An exception of the GET is the fetcher's exception. With
  \<open>raise_for_status\<close> as the specification describes it, a response whose status is not
  2xx makes the fetcher raise the library's \<open>HTTPError\<close> for that response, unchanged and
  with no second request; a 2xx response makes \<open>get_pr_diff\<close> return the text of the
  body and \<open>get_changed_files\<close> what decoding the body as JSON gives.
\<close>

theorem fetchers_raise_on_non_2xx_else_return_body:
  "(\<exists>url headers.
       url = lit ''https://api.github.com/repos/'' @ name @ lit ''/pulls/'' @ num
     \<and> api_calls (snd (get_pr_diff env token name num w)) = api_calls w @ [HttpGet url headers]
     \<and> (\<forall>e. env_requests_get env (api_calls w) url headers = Inl e
           \<longrightarrow> fst (get_pr_diff env token name num w) = Raise e)
     \<and> (\<forall>resp. env_requests_get env (api_calls w) url headers = Inr resp \<longrightarrow>
            (\<not> (200 \<le> status_code resp \<and> status_code resp < 300)
               \<longrightarrow> fst (get_pr_diff env token name num w)
                     = Raise (PyException ''HTTPError'' (http_error_msg resp)))
          \<and> (200 \<le> status_code resp \<and> status_code resp < 300
               \<longrightarrow> fst (get_pr_diff env token name num w) = Return (resp_text resp))))
   \<and> (\<exists>url headers.
       url = lit ''https://api.github.com/repos/'' @ name @ lit ''/pulls/'' @ num @ lit ''/files''
     \<and> api_calls (snd (get_changed_files env token name num w)) = api_calls w @ [HttpGet url headers]
     \<and> (\<forall>e. env_requests_get env (api_calls w) url headers = Inl e
           \<longrightarrow> fst (get_changed_files env token name num w) = Raise e)
     \<and> (\<forall>resp. env_requests_get env (api_calls w) url headers = Inr resp \<longrightarrow>
            (\<not> (200 \<le> status_code resp \<and> status_code resp < 300)
               \<longrightarrow> fst (get_changed_files env token name num w)
                     = Raise (PyException ''HTTPError'' (http_error_msg resp)))
          \<and> (200 \<le> status_code resp \<and> status_code resp < 300
               \<longrightarrow> fst (get_changed_files env token name num w)
                     = (case resp_json resp of Inl e \<Rightarrow> Raise e | Inr files \<Rightarrow> Return files))))"
proof (intro conjI)
  show "\<exists>url headers.
       url = lit ''https://api.github.com/repos/'' @ name @ lit ''/pulls/'' @ num
     \<and> api_calls (snd (get_pr_diff env token name num w)) = api_calls w @ [HttpGet url headers]
     \<and> (\<forall>e. env_requests_get env (api_calls w) url headers = Inl e
           \<longrightarrow> fst (get_pr_diff env token name num w) = Raise e)
     \<and> (\<forall>resp. env_requests_get env (api_calls w) url headers = Inr resp \<longrightarrow>
            (\<not> (200 \<le> status_code resp \<and> status_code resp < 300)
               \<longrightarrow> fst (get_pr_diff env token name num w)
                     = Raise (PyException ''HTTPError'' (http_error_msg resp)))
          \<and> (200 \<le> status_code resp \<and> status_code resp < 300
               \<longrightarrow> fst (get_pr_diff env token name num w) = Return (resp_text resp)))"
    unfolding get_pr_diff_def Let_def
    by (rule exI [of _ "lit ''https://api.github.com/repos/'' @ name @ lit ''/pulls/'' @ num"],
        rule exI [of _ "[(lit ''Authorization'', lit ''token '' @ token),
                     (lit ''Accept'', lit ''application/vnd.github.v3.diff'')]"])
       (auto simp: requests_get_def raise_for_status_def io_defs split: sum.splits)
next
  show "\<exists>url headers.
       url = lit ''https://api.github.com/repos/'' @ name @ lit ''/pulls/'' @ num @ lit ''/files''
     \<and> api_calls (snd (get_changed_files env token name num w)) = api_calls w @ [HttpGet url headers]
     \<and> (\<forall>e. env_requests_get env (api_calls w) url headers = Inl e
           \<longrightarrow> fst (get_changed_files env token name num w) = Raise e)
     \<and> (\<forall>resp. env_requests_get env (api_calls w) url headers = Inr resp \<longrightarrow>
            (\<not> (200 \<le> status_code resp \<and> status_code resp < 300)
               \<longrightarrow> fst (get_changed_files env token name num w)
                     = Raise (PyException ''HTTPError'' (http_error_msg resp)))
          \<and> (200 \<le> status_code resp \<and> status_code resp < 300
               \<longrightarrow> fst (get_changed_files env token name num w)
                     = (case resp_json resp of Inl e \<Rightarrow> Raise e | Inr files \<Rightarrow> Return files)))"
    unfolding get_changed_files_def Let_def
    by (rule exI [of _ "lit ''https://api.github.com/repos/'' @ name @ lit ''/pulls/'' @ num @ lit ''/files''"],
        rule exI [of _ "[(lit ''Authorization'', lit ''token '' @ token),
                     (lit ''Accept'', lit ''application/vnd.github.v3+json'')]"])
       (auto simp: requests_get_def raise_for_status_def io_defs split: sum.splits)
qed

theorem fetchers_raise_on_non_2xx_else_return_body_witness:
  "fst (get_pr_diff env_not_found (lit ''ghp-test'') (lit ''acme/widgets'') (lit ''42'') world0)
     = Raise (PyException ''HTTPError'' (lit ''404 Client Error''))
   \<and> fst (get_pr_diff env_ok (lit ''ghp-test'') (lit ''acme/widgets'') (lit ''42'') world0)
     = Return (lit ''+ x = 1'')
   \<and> fst (get_changed_files env_not_found (lit ''ghp-test'') (lit ''acme/widgets'') (lit ''42'') world0)
     = Raise (PyException ''HTTPError'' (lit ''404 Client Error''))
   \<and> fst (get_changed_files env_ok (lit ''ghp-test'') (lit ''acme/widgets'') (lit ''42'') world0)
     = Return [file0]"
proof -
  have nf: "env_requests_get env_not_found calls url headers = Inr response_not_found"
    and ok: "env_requests_get env_ok calls url headers = Inr response_ok" for calls url headers
    by (simp_all add: env_not_found_def env_ok_def)
  have st: "\<not> (200 \<le> status_code response_not_found \<and> status_code response_not_found < 300)"
    "200 \<le> status_code response_ok \<and> status_code response_ok < 300"
    by (simp_all add: response_not_found_def response_ok_def)
  have f: "http_error_msg response_not_found = lit ''404 Client Error''"
    "resp_text response_ok = lit ''+ x = 1''" "resp_json response_ok = Inr [file0]"
    by (simp_all add: response_not_found_def response_ok_def)
  show ?thesis
    using fetchers_raise_on_non_2xx_else_return_body
        [of "lit ''acme/widgets''" "lit ''42''" env_not_found "lit ''ghp-test''" world0]
      fetchers_raise_on_non_2xx_else_return_body
        [of "lit ''acme/widgets''" "lit ''42''" env_ok "lit ''ghp-test''" world0]
      st
    by (simp add: nf ok f)
qed

subsection \<open>The comment publisher\<close>

text \<open>
  Every run of the publisher, by the answers of the services.
\<close>

lemma post_pr_comment_run:
  "post_pr_comment env token name n b w =
     (case env_get_repo env (api_calls w) token name of
        Inl e \<Rightarrow> (Raise e, w\<lparr>api_calls := api_calls w @ [GetRepo token name]\<rparr>)
      | Inr u \<Rightarrow>
     (case env_int env n of
        Inl e \<Rightarrow> (Raise e, w\<lparr>api_calls := api_calls w @ [GetRepo token name]\<rparr>)
      | Inr k \<Rightarrow>
     (case env_get_pull env (api_calls w @ [GetRepo token name]) token name k of
        Inl e \<Rightarrow> (Raise e, w\<lparr>api_calls := api_calls w @ [GetRepo token name, GetPull token name k]\<rparr>)
      | Inr pr \<Rightarrow>
     (case env_create_issue_comment env (api_calls w @ [GetRepo token name, GetPull token name k])
             token name k (wrap_review b) of
        Inl e \<Rightarrow> (Raise e, w\<lparr>api_calls := api_calls w @ [GetRepo token name, GetPull token name k,
                                   CreateIssueComment token name k (wrap_review b)]\<rparr>)
      | Inr u \<Rightarrow> (Return (),
           w\<lparr>api_calls := api_calls w @ [GetRepo token name, GetPull token name k,
                                   CreateIssueComment token name k (wrap_review b)],
             comments := comments w @ [(name, k, wrap_review b)],
             stdout := stdout w @ [concat [[9989], lit '' Posted review comment on PR #'', n]]\<rparr>)))))"
  by (simp add: post_pr_comment_def wrap_review_def get_repo_def get_pull_def
        create_issue_comment_def io_defs lit_def Let_def split: sum.splits)

lemma post_pr_comment_cases:
  assumes "post_pr_comment env token name n b w = (r, w')"
  shows "(r = Return () \<and> (\<exists>k. env_int env n = Inr k \<and>
            comments w' = comments w @ [(name, k, wrap_review b)]))
       \<or> ((\<exists>e. r = Raise e) \<and> comments w' = comments w)"
  using assms unfolding post_pr_comment_run
  by (auto split: sum.splits)

lemma post_pr_comment_calls:
  "\<exists>new. api_calls (snd (post_pr_comment env token name n b w))
            = api_calls w @ GetRepo token name # new"
  unfolding post_pr_comment_run
  by (auto split: sum.splits)

text \<open>
  Claim C7. When \<open>post_pr_comment\<close> returns, it has made exactly one
  create-issue-comment call, the last of its calls, and the pull request has one more
  comment; the body of both is the review between the heading
  \<^verbatim>\<open>## (robot face) AI Code Review\<close> and the footer with the disclaimer line
  (\<open>wrap_review\<close>). When it does not return it has raised, and no comment was added.
  It returns whenever the four calls it makes succeed.
\<close>

theorem post_pr_comment_posts_wrapped_review:
  "(fst (post_pr_comment env token name num b w) = Return () \<longrightarrow>
      (\<exists>k before. env_int env num = Inr k
         \<and> api_calls (snd (post_pr_comment env token name num b w))
             = api_calls w @ before @ [CreateIssueComment token name k (wrap_review b)]
         \<and> filter is_comment_call before = []
         \<and> comments (snd (post_pr_comment env token name num b w))
             = comments w @ [(name, k, wrap_review b)]))
   \<and> (fst (post_pr_comment env token name num b w) \<noteq> Return () \<longrightarrow>
        comments (snd (post_pr_comment env token name num b w)) = comments w
      \<and> (\<exists>e. fst (post_pr_comment env token name num b w) = Raise e))
   \<and> (\<forall>k. env_int env num = Inr k
         \<and> env_get_repo env (api_calls w) token name = Inr ()
         \<and> (\<exists>pr. env_get_pull env (api_calls w @ [GetRepo token name]) token name k = Inr pr)
         \<and> env_create_issue_comment env (api_calls w @ [GetRepo token name, GetPull token name k])
               token name k (wrap_review b) = Inr ()
        \<longrightarrow> fst (post_pr_comment env token name num b w) = Return ())"
  unfolding post_pr_comment_run
  by (auto split: sum.splits)

theorem post_pr_comment_posts_wrapped_review_witness:
  "fst (post_pr_comment env_ok (lit ''ghp-test'') (lit ''acme/widgets'') (lit ''42'')
          (lit ''Looks good.'') world0) = Return ()
   \<and> comments (snd (post_pr_comment env_ok (lit ''ghp-test'') (lit ''acme/widgets'') (lit ''42'')
          (lit ''Looks good.'') world0))
       = [(lit ''acme/widgets'', 42, wrap_review (lit ''Looks good.''))]"
proof -
  have e: "env_int env_ok (lit ''42'') = Inr 42"
    "env_get_repo env_ok calls token name = Inr ()"
    "env_get_pull env_ok calls token name k = Inr \<lparr>title = lit ''Fix parser'', body = None\<rparr>"
    "env_create_issue_comment env_ok calls token name k b = Inr ()" for calls token name k b
    by (simp_all add: env_ok_def)
  have c: "comments world0 = []" by (simp add: world0_def)
  note inst = post_pr_comment_posts_wrapped_review
        [of env_ok "lit ''ghp-test''" "lit ''acme/widgets''" "lit ''42''" "lit ''Looks good.''" world0]
  have r: "fst (post_pr_comment env_ok (lit ''ghp-test'') (lit ''acme/widgets'') (lit ''42'')
          (lit ''Looks good.'') world0) = Return ()"
    using inst by (simp add: e)
  with inst show ?thesis by (auto simp: e c)
qed

subsection \<open>The top-level pipeline\<close>

text \<open>
  Claim C9. \<open>main\<close> does not read \<open>--pr-sha\<close>: two runs whose arguments differ
  only there are the same program, so they print, call, post and exit alike from every
  world.
\<close>

theorem pr_sha_is_unused:
  "main env (args\<lparr>arg_pr_sha := sha\<rparr>) = main env args"
  by (simp add: main_def)

lemma failure_handler_run:
  "failure_handler e w =
     (Exit 1, w\<lparr>stdout := stdout w @ [concat [[10060], lit '' Error during review: '', exc_str e]],
               stderr := stderr w @ [e]\<rparr>)"
  by (simp add: failure_handler_def io_defs)

lemma publish_stage_None:
  "publish_stage env args None w = (Raise attribute_error, w)"
  by (simp add: publish_stage_def raise_io_def)

lemma publish_stage_error:
  "startswith review (lit ''Error'') \<Longrightarrow>
   publish_stage env args (Some review) w
     = (Exit 1, w\<lparr>stdout := stdout w @ [concat [[10060], lit '' '', review]]\<rparr>)"
  by (simp add: publish_stage_def io_defs)

lemma publish_stage_post:
  "\<not> startswith review (lit ''Error'') \<Longrightarrow>
   publish_stage env args (Some review) w
     = (case post_pr_comment env (arg_github_token args) (arg_repo args) (arg_pr_number args)
               review (snd (print ([128172] @ lit '' Posting review comment...'') w)) of
          (Return u, w2) \<Rightarrow> (Return (), w2\<lparr>stdout := stdout w2 @ [[9989] @ lit '' Review completed successfully!'']\<rparr>)
        | (Raise e, w2) \<Rightarrow> (Raise e, w2)
        | (Exit n, w2) \<Rightarrow> (Exit n, w2))"
  by (simp add: publish_stage_def io_defs split: prod.splits result.splits)

lemma posting_state_simps [simp]:
  "comments (posting_state w) = comments w" "api_calls (posting_state w) = api_calls w"
  by (simp_all add: posting_state_def print_def)

text \<open>
  The five ways a run of \<open>main\<close> can go.
\<close>

lemma main_cases:
  fixes env args w
  defines "tok \<equiv> arg_github_token args" and "nm \<equiv> arg_repo args" and "num \<equiv> arg_pr_number args"
  obtains
    (fetch_failed) e w1 where "review_stage env args w = (Raise e, w1)"
      "fst (main env args w) = Exit 1" "comments (snd (main env args w)) = comments w"
  | (no_content) w1 where "review_stage env args w = (Return None, w1)"
      "fst (main env args w) = Exit 1" "comments (snd (main env args w)) = comments w"
  | (error_prefix) review w1 where "review_stage env args w = (Return (Some review), w1)"
      "startswith review (lit ''Error'')"
      "fst (main env args w) = Exit 1" "comments (snd (main env args w)) = comments w"
      "api_calls (snd (main env args w)) = api_calls w1"
  | (posted) review w1 w2 k where "review_stage env args w = (Return (Some review), w1)"
      "\<not> startswith review (lit ''Error'')"
      "post_pr_comment env tok nm num review (posting_state w1) = (Return (), w2)"
      "fst (main env args w) = Return ()"
      "env_int env num = Inr k"
      "comments (snd (main env args w)) = comments w @ [(nm, k, wrap_review review)]"
      "api_calls (snd (main env args w)) = api_calls w2"
  | (post_failed) review w1 w2 e where "review_stage env args w = (Return (Some review), w1)"
      "\<not> startswith review (lit ''Error'')"
      "post_pr_comment env tok nm num review (posting_state w1) = (Raise e, w2)"
      "fst (main env args w) = Exit 1" "comments (snd (main env args w)) = comments w"
      "api_calls (snd (main env args w)) = api_calls w2"
proof -
  obtain r w1 where rs: "review_stage env args w = (r, w1)" by (cases "review_stage env args w")
  have c1: "comments w1 = comments w"
    using keeps_comments_review_stage [of env args] rs by (auto simp: keeps_comments_def dest: spec [of _ w])
  show thesis
  proof (cases r)
    case (Raise e)
    show thesis
      by (rule fetch_failed [of e w1]) (simp_all add: main_run rs Raise failure_handler_run c1)
  next
    case (Exit n)
    then show thesis
      using never_exits_review_stage [of env args] rs by (auto simp: never_exits_def dest: spec [of _ w])
  next
    case (Return review)
    show thesis
    proof (cases review)
      case None
      show thesis
        by (rule no_content [of w1])
           (simp_all add: main_run rs Return None publish_stage_None failure_handler_run c1)
    next
      case (Some rv)
      show thesis
      proof (cases "startswith rv (lit ''Error'')")
        case True
        show thesis
          by (rule error_prefix [of rv w1])
             (simp_all add: main_run rs Return Some True publish_stage_error c1)
      next
        case False
        obtain r2 w2 where post: "post_pr_comment env tok nm num rv (posting_state w1) = (r2, w2)"
          by (cases "post_pr_comment env tok nm num rv (posting_state w1)")
        have pub: "publish_stage env args (Some rv) w1 =
            (case (r2, w2) of
              (Return u, w2) \<Rightarrow> (Return (), w2\<lparr>stdout := stdout w2 @ [[9989] @ lit '' Review completed successfully!'']\<rparr>)
            | (Raise e, w2) \<Rightarrow> (Raise e, w2)
            | (Exit n, w2) \<Rightarrow> (Exit n, w2))"
          using publish_stage_post [OF False, of env args w1] post
          by (simp add: posting_state_def tok_def nm_def num_def)
        from post_pr_comment_cases [OF post]
        show thesis
        proof (elim disjE conjE exE)
          fix k assume r2: "r2 = Return ()" and k: "env_int env num = Inr k"
            and c2: "comments w2 = comments (posting_state w1) @ [(nm, k, wrap_review rv)]"
          show thesis
            by (rule posted [of rv w1 w2 k])
               (use post r2 k c2 in \<open>simp_all add: main_run rs Return Some False pub c1\<close>)
        next
          fix e assume r2: "r2 = Raise e" and c2: "comments w2 = comments (posting_state w1)"
          show thesis
            by (rule post_failed [of rv w1 e w2])
               (use post r2 c2 in \<open>simp_all add: main_run rs Return Some False pub c1 failure_handler_run\<close>)
        qed
      qed
    qed
  qed
qed

lemma review_stage_ai_down:
  "fst (review_stage env_ai_down args0 world0)
     = Return (Some (lit ''Error during AI review: '' @ lit ''Request timed out.''))"
proof -
  obtain p where p: "create_review_prompt (lit ''+ x = 1'') [file0] (Some (lit ''Fix parser'')) (Some [])
      = Inr p"
    using prompt_of_file0s [of "lit ''+ x = 1''" 1] by auto
  show ?thesis
    by (simp add: review_stage_def review_with_ai_def get_pr_diff_def get_changed_files_def
          requests_get_def get_repo_def get_pull_def chat_completions_create_def
          raise_for_status_def io_defs double_defs py_or_def p Let_def)
qed

lemma review_stage_ok:
  "fst (review_stage env_ok args0 world0) = Return (Some (lit ''Looks good.''))"
proof -
  obtain p where p: "create_review_prompt (lit ''+ x = 1'') [file0] (Some (lit ''Fix parser'')) (Some [])
      = Inr p"
    using prompt_of_file0s [of "lit ''+ x = 1''" 1] by auto
  show ?thesis
    by (simp add: review_stage_def review_with_ai_def get_pr_diff_def get_changed_files_def
          requests_get_def get_repo_def get_pull_def chat_completions_create_def
          raise_for_status_def io_defs double_defs py_or_def p Let_def)
qed

text \<open>
  Claim C1. The process exits with 0 or 1. It exits with 0 only after exactly one
  comment was added, and with another status only with no comment added. When the
  review requester has returned a string: the run ends with a non-zero status and
  with no call after the review stage exactly when the string starts with
  \<^verbatim>\<open>Error\<close>; when it does not, the calls of the run are those of the publisher, run on
  that string, and a successful run has added the comment that wraps it.
\<close>

theorem main_publishes_unless_error_prefix:
  "(exit_code (fst (main env args w)) = 0 \<or> exit_code (fst (main env args w)) = 1)
   \<and> (exit_code (fst (main env args w)) = 0
        \<longrightarrow> (\<exists>c. comments (snd (main env args w)) = comments w @ [c]))
   \<and> (exit_code (fst (main env args w)) \<noteq> 0
        \<longrightarrow> comments (snd (main env args w)) = comments w)
   \<and> (\<forall>review w1. review_stage env args w = (Return (Some review), w1) \<longrightarrow>
        (startswith review (lit ''Error'')
           \<longleftrightarrow> exit_code (fst (main env args w)) \<noteq> 0
               \<and> api_calls (snd (main env args w)) = api_calls w1)
      \<and> (\<not> startswith review (lit ''Error'') \<longrightarrow>
           api_calls (snd (main env args w))
             = api_calls (snd (post_pr_comment env (arg_github_token args) (arg_repo args)
                                 (arg_pr_number args) review (posting_state w1)))
         \<and> (exit_code (fst (main env args w)) = 0 \<longrightarrow>
              (\<exists>k. comments (snd (main env args w))
                     = comments w @ [(arg_repo args, k, wrap_review review)]))))"
proof (cases rule: main_cases [of env args w])
  case (fetch_failed e w1)
  then show ?thesis by simp
next
  case (no_content w1)
  then show ?thesis by simp
next
  case (error_prefix review w1)
  then show ?thesis by simp
next
  case (posted review w1 w2 k)
  have "api_calls w2 \<noteq> api_calls w1"
    using post_pr_comment_calls [of env "arg_github_token args" "arg_repo args"
        "arg_pr_number args" review "posting_state w1"] posted(3)
    by auto
  with posted show ?thesis by simp
next
  case (post_failed review w1 w2 e)
  have "api_calls w2 \<noteq> api_calls w1"
    using post_pr_comment_calls [of env "arg_github_token args" "arg_repo args"
        "arg_pr_number args" review "posting_state w1"] post_failed(3)
    by auto
  with post_failed show ?thesis by simp
qed

theorem main_publishes_unless_error_prefix_witness:
  "startswith (lit ''Error during AI review: '' @ lit ''Request timed out.'') (lit ''Error'')
   \<and> fst (review_stage env_ai_down args0 world0)
       = Return (Some (lit ''Error during AI review: '' @ lit ''Request timed out.''))
   \<and> exit_code (fst (main env_ai_down args0 world0)) = 1
   \<and> api_calls (snd (main env_ai_down args0 world0))
       = api_calls (snd (review_stage env_ai_down args0 world0))
   \<and> comments (snd (main env_ai_down args0 world0)) = []
   \<and> \<not> startswith (lit ''Looks good.'') (lit ''Error'')
   \<and> fst (review_stage env_ok args0 world0) = Return (Some (lit ''Looks good.''))
   \<and> exit_code (fst (main env_ok args0 world0)) = 0
   \<and> comments (snd (main env_ok args0 world0))
       = [(lit ''acme/widgets'', 42, wrap_review (lit ''Looks good.''))]"
proof -
  let ?down = "lit ''Error during AI review: '' @ lit ''Request timed out.''"
  have s1: "startswith ?down (lit ''Error'')" by (simp add: startswith_def lit_def)
  have s2: "\<not> startswith (lit ''Looks good.'') (lit ''Error'')"
    by (simp add: startswith_def lit_def)
  have r1: "review_stage env_ai_down args0 world0
      = (Return (Some ?down), snd (review_stage env_ai_down args0 world0))"
    using review_stage_ai_down by (simp add: prod_eq_iff)
  have r2: "review_stage env_ok args0 world0
      = (Return (Some (lit ''Looks good.'')), snd (review_stage env_ok args0 world0))"
    using review_stage_ok by (simp add: prod_eq_iff)
  note down = main_publishes_unless_error_prefix [of env_ai_down args0 world0]
  note ok = main_publishes_unless_error_prefix [of env_ok args0 world0]
  have c0: "comments world0 = []" by (simp add: world0_def)
  have d: "exit_code (fst (main env_ai_down args0 world0)) = 1
      \<and> api_calls (snd (main env_ai_down args0 world0))
          = api_calls (snd (review_stage env_ai_down args0 world0))
      \<and> comments (snd (main env_ai_down args0 world0)) = []"
    using down r1 s1 c0 by auto
  have e: "env_int env_ok (arg_pr_number args0) = Inr 42"
    "env_get_repo env_ok calls token name = Inr ()"
    "env_get_pull env_ok calls token name k = Inr \<lparr>title = lit ''Fix parser'', body = None\<rparr>"
    "env_create_issue_comment env_ok calls token name k b = Inr ()" for calls token name k b
    by (simp_all add: env_ok_def args0_def)
  have post: "fst (post_pr_comment env_ok (arg_github_token args0) (arg_repo args0)
        (arg_pr_number args0) (lit ''Looks good.'')
        (posting_state (snd (review_stage env_ok args0 world0)))) = Return ()"
    by (simp add: post_pr_comment_run e)
  have ok_run: "exit_code (fst (main env_ok args0 world0)) = 0
      \<and> comments (snd (main env_ok args0 world0))
          = [(lit ''acme/widgets'', 42, wrap_review (lit ''Looks good.''))]"
  proof (cases rule: main_cases [of env_ok args0 world0])
    case (fetch_failed e w1)
    then show ?thesis using r2 by simp
  next
    case (no_content w1)
    then show ?thesis using r2 by simp
  next
    case (error_prefix review w1)
    then show ?thesis using r2 s2 by simp
  next
    case (posted review w1 w2 k)
    then have "review = lit ''Looks good.''" "k = 42" using r2 e(1) by simp_all
    with posted show ?thesis by (simp add: c0 args0_def)
  next
    case (post_failed review w1 w2 e)
    then have "review = lit ''Looks good.''" "w1 = snd (review_stage env_ok args0 world0)"
      using r2 by simp_all
    with post_failed(3) post show ?thesis by simp
  qed
  have "\<exists>k. comments (snd (main env_ok args0 world0))
       = comments world0 @ [(arg_repo args0, k, wrap_review (lit ''Looks good.''))]"
    using ok r2 s2 ok_run by blast
  with ok_run d s1 s2 review_stage_ai_down review_stage_ok show ?thesis by simp
qed

end
